theory Spec2Isabelle
  imports Complex_Main
begin

section \<open>JavaScript values used by the payment workflow\<close>

text \<open>
  A JavaScript \<^verbatim>\<open>number\<close> is modelled as a rational: the workflow only adds,
  multiplies, compares and rounds amounts, and every concrete amount used below is a
  dyadic fraction, which a double represents exactly. A property that can be
  \<^verbatim>\<open>undefined\<close> or \<^verbatim>\<open>null\<close> is an \<open>option\<close>; \<open>None\<close> stands for both.
\<close>

definition Math_round :: "rat \<Rightarrow> rat" where
  \<comment> \<open>\<^verbatim>\<open>Math.round\<close>: the nearest integer, a tie going towards plus infinity.\<close>
  "Math_round x = of_int \<lfloor>x + 1 / 2\<rfloor>"

definition truthy :: "string option \<Rightarrow> bool" where
  \<comment> \<open>A string-valued property in a condition or on the left of \<^verbatim>\<open>||\<close>: absent and
      the empty string are falsy.\<close>
  "truthy s = (case s of None \<Rightarrow> False | Some v \<Rightarrow> v \<noteq> [])"

definition or_else :: "string option \<Rightarrow> string \<Rightarrow> string" where
  \<comment> \<open>\<^verbatim>\<open>s || d\<close> for a string-valued property.\<close>
  "or_else s d = (case s of None \<Rightarrow> d | Some v \<Rightarrow> if v = [] then d else v)"

definition num_or :: "rat option \<Rightarrow> rat \<Rightarrow> rat" where
  \<comment> \<open>\<^verbatim>\<open>x || d\<close> for a number-valued property: absent and zero are falsy.\<close>
  "num_or x d = (case x of None \<Rightarrow> d | Some v \<Rightarrow> if v = 0 then d else v)"

fun string_of_nat :: "nat \<Rightarrow> string" where
  \<comment> \<open>The decimal digits of a count, as a template literal prints it.\<close>
  "string_of_nat n =
     (if n < 10 then [''0123456789'' ! n]
      else string_of_nat (n div 10) @ [''0123456789'' ! (n mod 10)])"

declare string_of_nat.simps [simp del]

section \<open>Data\<close>

subsection \<open>Orders and the rows of the Order Store\<close>

text \<open>
  \<open>order_row\<close> is the \<^verbatim>\<open>Order\<close> of \<^verbatim>\<open>types/order\<close>: a row of
  \<^verbatim>\<open>orders\<close> as the client selects it, with its line items nested. The other
  records are the rows the workflow inserts.
\<close>

record line_item =
  li_id :: string
  li_quantity :: rat
  li_unit_price :: rat
  li_menu_item_name :: "string option"

record order_row =
  oid :: string
  order_user_id :: string
  order_number :: string
  child_name :: string
  child_class :: string
  total_amount :: rat
  status :: string
  payment_status :: string
  payment_method :: "string option"
  midtrans_order_id :: "string option"
  snap_token :: "string option"
  parent_notes :: "string option"
  order_line_items :: "line_item list"

record batch_row =
  batch_id :: string
  batch_order_id :: string

record line_item_row =
  lr_order_id :: string
  lr_child_id :: string
  lr_child_name :: string
  lr_child_class :: string
  lr_menu_item_id :: string
  lr_quantity :: rat
  lr_unit_price :: rat
  lr_delivery_date :: string
  lr_order_date :: string

record payment_row =
  pay_order_id :: string
  pay_amount :: rat
  pay_method :: string
  pay_status :: string
  pay_transaction_id :: string

record cash_payment_row =
  cash_order_id :: string
  cash_amount :: rat
  received_amount :: rat
  change_amount :: rat
  cashier_id :: string
  cash_notes :: string

text \<open>
  The fields an \<^verbatim>\<open>update({...})\<close> call sets; \<open>None\<close> leaves the column as it is.
\<close>

record order_patch =
  set_snap_token :: "string option"
  set_midtrans_order_id :: "string option"
  set_payment_status :: "string option"
  set_status :: "string option"
  set_payment_method :: "string option"

definition no_patch :: order_patch where
  "no_patch = \<lparr>set_snap_token = None, set_midtrans_order_id = None,
     set_payment_status = None, set_status = None, set_payment_method = None\<rparr>"

datatype db_op =
    InsertOrder order_row
  | InsertLineItems "line_item_row list"
  | DeleteOrder string
  | UpdateOrder string order_patch
  | InsertBatchOrders "batch_row list"
  | InsertPayment payment_row
  | InsertCashPayment cash_payment_row

subsection \<open>Requests to the Gateway Transaction Function and payloads to the gateway\<close>

record item =
  item_id :: "string option"
  item_name :: "string option"
  item_price :: "rat option"
  item_quantity :: "rat option"

record customer =
  first_name :: "string option"
  email :: "string option"
  phone :: "string option"

record request =
  orderId :: "string option"
  amount :: "rat option"
  customerDetails :: "customer option"
  itemDetails :: "item list option"
  batchOrderIds :: "string list option"

record item_detail =
  detail_id :: string
  detail_price :: rat
  detail_quantity :: rat
  detail_name :: string

record midtrans_payload =
  td_order_id :: string
  td_gross_amount :: rat
  customer_details :: customer
  item_details :: "item_detail list"
  credit_card_secure :: bool

subsection \<open>The world of a run\<close>

text \<open>
  A run reads its environment and changes the world: the tables of the Order Store,
  the list of effects in the order they happened (store writes attempted, calls of the
  payment gateway, invocations of the function, openings of the payment widget, messages
  shown to the user), and the labels of the \<^verbatim>\<open>console.error\<close> lines. The
  environment holds the function's configuration, the answer of the store to each write
  (\<open>None\<close> for success, otherwise the error's message), the answer of the payment
  gateway to each payload, whether the widget's script is loaded, and the signed-in user.
\<close>

datatype gateway_reply =
    GatewayOk "string option" "string option"
  | GatewayHttpError nat string
  | GatewayFetchFailed string

datatype toast_variant = Default | Destructive

datatype event =
    DbWrite db_op
  | GatewayCall midtrans_payload
  | FunctionInvoke request
  | SnapPay string
  | Toast string string toast_variant

record world =
  orders :: "order_row list"
  order_line_item_rows :: "line_item_row list"
  batch_orders :: "batch_row list"
  payments :: "payment_row list"
  cash_payments :: "cash_payment_row list"
  effects :: "event list"
  console :: "string list"

record user =
  user_id :: string
  user_email :: "string option"
  user_full_name :: "string option"
  user_phone :: "string option"

record env =
  MIDTRANS_SERVER_KEY :: "string option"
  SUPABASE_URL :: "string option"
  SUPABASE_SERVICE_ROLE_KEY :: "string option"
  db_error :: "db_op \<Rightarrow> string option"
  midtrans :: "midtrans_payload \<Rightarrow> gateway_reply"
  snap_loaded :: bool
  auth_user :: "user option"


section \<open>The Order Store\<close>

text \<open>
  The Order Store is the hosted database behind the \<^verbatim>\<open>supabase\<close> client; the
  workflow inserts rows, updates an order by id and deletes an order by id. \<open>apply_db\<close>
  gives a write that succeeds the meaning of its SQL statement; the migration creating
  \<^verbatim>\<open>batch_orders\<close> declares \<^verbatim>\<open>ON DELETE CASCADE\<close> on its order reference.
\<close>

definition apply_patch :: "order_patch \<Rightarrow> order_row \<Rightarrow> order_row" where
  "apply_patch p r =
     r\<lparr>snap_token := (case set_snap_token p of None \<Rightarrow> snap_token r | Some v \<Rightarrow> Some v),
       midtrans_order_id :=
         (case set_midtrans_order_id p of None \<Rightarrow> midtrans_order_id r | Some v \<Rightarrow> Some v),
       payment_status := (case set_payment_status p of None \<Rightarrow> payment_status r | Some v \<Rightarrow> v),
       status := (case set_status p of None \<Rightarrow> status r | Some v \<Rightarrow> v),
       payment_method :=
         (case set_payment_method p of None \<Rightarrow> payment_method r | Some v \<Rightarrow> Some v)\<rparr>"

fun apply_db :: "db_op \<Rightarrow> world \<Rightarrow> world" where
  "apply_db (InsertOrder r) w = w\<lparr>orders := orders w @ [r]\<rparr>"
| "apply_db (InsertLineItems rs) w = w\<lparr>order_line_item_rows := order_line_item_rows w @ rs\<rparr>"
| "apply_db (DeleteOrder i) w =
     w\<lparr>orders := filter (\<lambda>r. oid r \<noteq> i) (orders w),
       batch_orders := filter (\<lambda>b. batch_order_id b \<noteq> i) (batch_orders w)\<rparr>"
| "apply_db (UpdateOrder i p) w =
     w\<lparr>orders := map (\<lambda>r. if oid r = i then apply_patch p r else r) (orders w)\<rparr>"
| "apply_db (InsertBatchOrders bs) w = w\<lparr>batch_orders := batch_orders w @ bs\<rparr>"
| "apply_db (InsertPayment p) w = w\<lparr>payments := payments w @ [p]\<rparr>"
| "apply_db (InsertCashPayment c) w = w\<lparr>cash_payments := cash_payments w @ [c]\<rparr>"

definition emit :: "event \<Rightarrow> world \<Rightarrow> world" where
  "emit e w = w\<lparr>effects := effects w @ [e]\<rparr>"

definition console_error :: "string \<Rightarrow> world \<Rightarrow> world" where
  \<comment> \<open>\<^verbatim>\<open>console.error(label, ...)\<close>: the label is kept.\<close>
  "console_error l w = w\<lparr>console := console w @ [l]\<rparr>"

definition exec_db :: "env \<Rightarrow> db_op \<Rightarrow> world \<Rightarrow> string option \<times> world" where
  \<comment> \<open>One awaited store call: the attempt is recorded; it either fails with a message,
      changing no table, or is applied. The result is the \<^verbatim>\<open>error\<close> of the reply.\<close>
  "exec_db env op w =
     (case db_error env op of
        Some msg \<Rightarrow> (Some msg, emit (DbWrite op) w)
      | None \<Rightarrow> (None, apply_db op (emit (DbWrite op) w)))"

section \<open>The Gateway Transaction Function (create-payment)\<close>

subsection \<open>Item normalisation and the summary item\<close>

definition normalize_item :: "item \<Rightarrow> nat \<Rightarrow> item_detail" where
  \<comment> \<open>The callback of \<^verbatim>\<open>itemDetails.map((item, index) => ...)\<close>.\<close>
  "normalize_item it index =
     (let truncatedName =
            (case item_name it of
               Some n \<Rightarrow>
                 if length n > 45 then take 45 n @ ''...''
                 else or_else (item_name it) (''Item '' @ string_of_nat (index + 1))
             | None \<Rightarrow> or_else (item_name it) (''Item '' @ string_of_nat (index + 1)))
      in \<lparr>detail_id = or_else (item_id it) (''item-'' @ string_of_nat (index + 1)),
          detail_price = Math_round (num_or (item_price it) 0),
          detail_quantity = num_or (item_quantity it) 1,
          detail_name = truncatedName\<rparr>)"

definition normalize_items :: "item list \<Rightarrow> item_detail list" where
  "normalize_items its = map (\<lambda>(item, index). normalize_item item index) (zip its [0..<length its])"

definition calculatedTotal :: "item_detail list \<Rightarrow> rat" where
  \<comment> \<open>\<^verbatim>\<open>finalItemDetails.reduce((sum, item) => sum + item.price * item.quantity, 0)\<close>\<close>
  "calculatedTotal ds = foldl (\<lambda>sum d. sum + detail_price d * detail_quantity d) 0 ds"

definition summary_name :: "string list option \<Rightarrow> string" where
  "summary_name bs =
     (case bs of
        Some ids \<Rightarrow>
          if length ids > 1 then ''Batch Payment ('' @ string_of_nat (length ids) @ '' orders)''
          else ''Payment''
      | None \<Rightarrow> ''Payment'')"

definition summary_item :: "string \<Rightarrow> rat \<Rightarrow> string list option \<Rightarrow> item_detail" where
  \<comment> \<open>The single line item; the source writes the same literal in both branches.\<close>
  "summary_item oi a bs =
     \<lparr>detail_id = oi, detail_price = Math_round a, detail_quantity = 1,
      detail_name = summary_name bs\<rparr>"

definition finalItemDetails ::
    "string \<Rightarrow> rat \<Rightarrow> item list option \<Rightarrow> string list option \<Rightarrow> item_detail list" where
  "finalItemDetails oi a its bs =
     (case its of
        None \<Rightarrow> [summary_item oi a bs]
      | Some xs \<Rightarrow>
          if xs = [] then [summary_item oi a bs]
          else
            let ds = normalize_items xs
            in if calculatedTotal ds \<noteq> a then [summary_item oi a bs] else ds)"

definition defaultCustomerDetails :: customer where
  "defaultCustomerDetails =
     \<lparr>first_name = Some ''Customer'', email = Some ''customer@example.com'',
      phone = Some ''08123456789''\<rparr>"

definition finalCustomerDetails :: "customer option \<Rightarrow> customer" where
  \<comment> \<open>\<^verbatim>\<open>{ ...defaultCustomerDetails, ...customerDetails }\<close>: a key the caller gives
      replaces the default.\<close>
  "finalCustomerDetails c =
     (case c of
        None \<Rightarrow> defaultCustomerDetails
      | Some d \<Rightarrow>
          \<lparr>first_name = (case first_name d of None \<Rightarrow> first_name defaultCustomerDetails | Some v \<Rightarrow> Some v),
           email = (case email d of None \<Rightarrow> email defaultCustomerDetails | Some v \<Rightarrow> Some v),
           phone = (case phone d of None \<Rightarrow> phone defaultCustomerDetails | Some v \<Rightarrow> Some v)\<rparr>)"

definition midtransPayload :: "string \<Rightarrow> rat \<Rightarrow> request \<Rightarrow> midtrans_payload" where
  "midtransPayload oi a req =
     \<lparr>td_order_id = oi, td_gross_amount = Math_round a,
      customer_details = finalCustomerDetails (customerDetails req),
      item_details = finalItemDetails oi a (itemDetails req) (batchOrderIds req),
      credit_card_secure = True\<rparr>"

subsection \<open>The request handler\<close>

datatype http_method = OPTIONS | POST

datatype response =
    Preflight
  | Ok200 "string option" "string option"
  | Error500 string

definition save_batch_mapping ::
    "env \<Rightarrow> string \<Rightarrow> string list option \<Rightarrow> world \<Rightarrow> string option \<times> world" where
  \<comment> \<open>Lines 57 to 96: the result is the message of the error thrown, if any.\<close>
  "save_batch_mapping env oi bs w =
     (case bs of
        None \<Rightarrow> (None, w)
      | Some ids \<Rightarrow>
          if ids = [] then (None, w)
          else if truthy (SUPABASE_URL env) \<and> truthy (SUPABASE_SERVICE_ROLE_KEY env) then
            (let batchMappings =
                   map (\<lambda>originalOrderId.
                          \<lparr>batch_id = oi, batch_order_id = originalOrderId\<rparr>) ids
             in case exec_db env (InsertBatchOrders batchMappings) w of
                  (Some msg, w') \<Rightarrow>
                    (Some (''Database error: Failed to save batch mapping: '' @ msg),
                     console_error ''Database error during batch mapping:''
                       (console_error ''Error saving batch mapping:'' w'))
                | (None, w') \<Rightarrow> (None, w'))
          else
            (None,
             console_error ''SUPABASE_SERVICE_ROLE_KEY:''
               (console_error ''SUPABASE_URL:''
                  (console_error ''Supabase configuration missing for batch mapping'' w))))"

definition call_midtrans ::
    "env \<Rightarrow> midtrans_payload \<Rightarrow> world \<Rightarrow> (string + string option \<times> string option) \<times> world" where
  \<comment> \<open>Lines 180 to 213: the \<^verbatim>\<open>fetch\<close> to the gateway and the reading of its reply.\<close>
  "call_midtrans env payload w =
     (let w' = emit (GatewayCall payload) w
      in case midtrans env payload of
           GatewayOk token redirect_url \<Rightarrow> (Inr (token, redirect_url), w')
         | GatewayHttpError code body \<Rightarrow>
             (Inl (''Midtrans API call failed: Midtrans API error: '' @ string_of_nat code
                     @ '' - '' @ body),
              console_error ''Midtrans API call failed:''
                (console_error ''Midtrans error response:'' w'))
         | GatewayFetchFailed msg \<Rightarrow>
             (Inl (''Midtrans API call failed: '' @ msg),
              console_error ''Midtrans API call failed:'' w'))"

definition create_payment ::
    "env \<Rightarrow> request \<Rightarrow> world \<Rightarrow> (string + string option \<times> string option) \<times> world" where
  \<comment> \<open>The body of the outer \<^verbatim>\<open>try\<close>: \<open>Inl\<close> is the message of the error thrown.\<close>
  "create_payment env req w =
     (case orderId req of
        None \<Rightarrow> (Inl ''Order ID is required'', console_error ''Order ID is missing'' w)
      | Some oi \<Rightarrow>
          if oi = [] then (Inl ''Order ID is required'', console_error ''Order ID is missing'' w)
          else
            (case amount req of
               None \<Rightarrow> (Inl ''Valid amount is required'', console_error ''Invalid amount:'' w)
             | Some a \<Rightarrow>
                 if a = 0 \<or> a \<le> 0 then
                   (Inl ''Valid amount is required'', console_error ''Invalid amount:'' w)
                 else if \<not> truthy (MIDTRANS_SERVER_KEY env) then
                   (Inl ''Midtrans server key not configured'',
                    console_error ''Midtrans server key not configured'' w)
                 else
                   (case save_batch_mapping env oi (batchOrderIds req) w of
                      (Some msg, w') \<Rightarrow> (Inl msg, w')
                    | (None, w') \<Rightarrow> call_midtrans env (midtransPayload oi a req) w')))"

definition serve :: "env \<Rightarrow> http_method \<Rightarrow> request \<Rightarrow> world \<Rightarrow> response \<times> world" where
  "serve env m req w =
     (if m = OPTIONS then (Preflight, w)
      else
        case create_payment env req w of
          (Inr (token, redirect_url), w') \<Rightarrow> (Ok200 token redirect_url, w')
        | (Inl msg, w') \<Rightarrow>
            (Error500 msg,
             console_error ''Error stack:''
               (console_error ''Error message:''
                  (console_error ''Error type:''
                     (console_error ''=== ERROR IN CREATE-PAYMENT FUNCTION ==='' w')))))"


section \<open>The client side\<close>

datatype invoke_reply =
    InvokeData "string option" "string option"
  | InvokeError string

definition functions_invoke :: "env \<Rightarrow> request \<Rightarrow> world \<Rightarrow> invoke_reply \<times> world" where
  \<comment> \<open>\<^verbatim>\<open>supabase.functions.invoke('create-payment', { body })\<close>. The client library
      posts the body to the function; a 2xx reply becomes \<^verbatim>\<open>data\<close>, any other
      reply an \<^verbatim>\<open>error\<close> whose message is the library's fixed text.\<close>
  "functions_invoke env body w =
     (case serve env POST body (emit (FunctionInvoke body) w) of
        (Ok200 token redirect_url, w') \<Rightarrow> (InvokeData token redirect_url, w')
      | (Error500 msg, w') \<Rightarrow> (InvokeError ''Edge Function returned a non-2xx status code'', w')
      | (Preflight, w') \<Rightarrow> (InvokeData None None, w'))"

definition toast :: "string \<Rightarrow> string \<Rightarrow> toast_variant \<Rightarrow> world \<Rightarrow> world" where
  "toast title description variant w = emit (Toast title description variant) w"

definition snap_pay :: "env \<Rightarrow> string \<Rightarrow> world \<Rightarrow> string option \<times> world" where
  \<comment> \<open>\<^verbatim>\<open>if (window.snap) window.snap.pay(token, ...) else throw ...\<close>; the widget's
      callbacks run later, on the payer's action, and are not part of the call.\<close>
  "snap_pay env token w =
     (if snap_loaded env then (None, emit (SnapPay token) w)
      else (Some ''Midtrans Snap belum loaded'', w))"

subsection \<open>Batch Payment Aggregator (processBatchPayment)\<close>

definition batch_customerDetails :: "user option \<Rightarrow> customer" where
  "batch_customerDetails u =
     \<lparr>first_name =
        Some (or_else (Option.bind u user_full_name)
               (or_else (map_option (takeWhile (\<lambda>c. c \<noteq> CHR ''@'')) (Option.bind u user_email))
                  ''Customer'')),
      email = Some (or_else (Option.bind u user_email) ''parent@example.com''),
      phone = Some (or_else (Option.bind u user_phone) ''08123456789'')\<rparr>"

definition batch_itemDetails :: "order_row list \<Rightarrow> item list" where
  \<comment> \<open>The two nested \<^verbatim>\<open>for\<close> loops pushing onto \<^verbatim>\<open>itemDetails\<close>.\<close>
  "batch_itemDetails pendingOrders =
     concat (map (\<lambda>order.
        map (\<lambda>it.
               \<lparr>item_id = Some (oid order @ ''-'' @ li_id it),
                item_name =
                  Some (or_else (li_menu_item_name it) ''Item'' @ '' - '' @ child_name order),
                item_price = Some (li_unit_price it),
                item_quantity = Some (li_quantity it)\<rparr>)
            (order_line_items order)) pendingOrders)"

definition batch_patch :: "string \<Rightarrow> string \<Rightarrow> order_patch" where
  "batch_patch token batchOrderId =
     no_patch\<lparr>set_snap_token := Some token, set_midtrans_order_id := Some batchOrderId\<rparr>"

fun stamp_orders :: "env \<Rightarrow> string \<Rightarrow> string \<Rightarrow> order_row list \<Rightarrow> world \<Rightarrow> world" where
  \<comment> \<open>\<^verbatim>\<open>for (const order of pendingOrders) { update ...; if (updateError) console.error }\<close>\<close>
  "stamp_orders env token batchOrderId [] w = w"
| "stamp_orders env token batchOrderId (order # rest) w =
     (case exec_db env (UpdateOrder (oid order) (batch_patch token batchOrderId)) w of
        (Some err, w') \<Rightarrow>
          stamp_orders env token batchOrderId rest (console_error ''Error updating order:'' w')
      | (None, w') \<Rightarrow> stamp_orders env token batchOrderId rest w')"

definition batch_request :: "env \<Rightarrow> string \<Rightarrow> order_row list \<Rightarrow> request" where
  "batch_request env batchOrderId pendingOrders =
     \<lparr>orderId = Some batchOrderId,
      amount = Some (foldl (\<lambda>sum order. sum + total_amount order) 0 pendingOrders),
      customerDetails = Some (batch_customerDetails (auth_user env)),
      itemDetails = Some (batch_itemDetails pendingOrders),
      batchOrderIds = Some (map oid pendingOrders)\<rparr>"

definition batch_try ::
    "env \<Rightarrow> string \<Rightarrow> order_row list \<Rightarrow> world \<Rightarrow> string option \<times> world" where
  \<comment> \<open>The body of the \<^verbatim>\<open>try\<close>; the result is the message of the error thrown, if any.\<close>
  "batch_try env batchOrderId pendingOrders w =
     (case functions_invoke env (batch_request env batchOrderId pendingOrders) w of
        (InvokeError msg, w') \<Rightarrow>
          (Some (if msg = [] then ''Failed to create batch payment'' else msg),
           console_error ''Batch payment error:'' w')
      | (InvokeData token redirect_url, w') \<Rightarrow>
          (case token of
             None \<Rightarrow> (Some ''Snap token tidak diterima untuk batch payment'', w')
           | Some t \<Rightarrow>
               if t = [] then (Some ''Snap token tidak diterima untuk batch payment'', w')
               else snap_pay env t (stamp_orders env t batchOrderId pendingOrders w')))"

definition processBatchPayment :: "env \<Rightarrow> string \<Rightarrow> order_row list \<Rightarrow> world \<Rightarrow> world" where
  \<comment> \<open>\<open>batchOrderId\<close> is the id the source builds from the clock and a random suffix.\<close>
  "processBatchPayment env batchOrderId orders_in w =
     (if orders_in = [] then
        toast ''Error'' ''Tidak ada pesanan yang dipilih untuk dibayar'' Destructive w
      else
        let pendingOrders = filter (\<lambda>order. payment_status order = ''pending'') orders_in
        in if pendingOrders = [] then
             toast ''Info'' ''Tidak ada pesanan yang perlu dibayar'' Default w
           else
             (case batch_try env batchOrderId pendingOrders w of
                (None, w') \<Rightarrow> w'
              | (Some msg, w') \<Rightarrow>
                  toast ''Error'' (if msg = [] then ''Gagal memproses pembayaran batch'' else msg)
                    Destructive (console_error ''Batch payment error:'' w')))"

subsection \<open>Retry payment (retryPayment)\<close>

definition retry_request :: "env \<Rightarrow> string \<Rightarrow> order_row \<Rightarrow> request" where
  "retry_request env orderId_used order =
     \<lparr>orderId = Some orderId_used,
      amount = Some (total_amount order),
      customerDetails =
        Some \<lparr>first_name = Some (or_else (Some (child_name order)) ''Customer''),
              email = Some (or_else (Option.bind (auth_user env) user_email) ''parent@example.com''),
              phone = Some (or_else (Option.bind (auth_user env) user_phone) ''08123456789'')\<rparr>,
      itemDetails =
        Some (map (\<lambda>it. \<lparr>item_id = Some (li_id it),
                          item_name = Some (or_else (li_menu_item_name it) ''Unknown Item''),
                          item_price = Some (li_unit_price it),
                          item_quantity = Some (li_quantity it)\<rparr>)
                (order_line_items order)),
      batchOrderIds = None\<rparr>"

definition retry_fresh_token ::
    "env \<Rightarrow> string \<Rightarrow> order_row \<Rightarrow> world \<Rightarrow> string option \<times> world" where
  \<comment> \<open>From the call of create-payment on: lines 131 to 210.\<close>
  "retry_fresh_token env orderId_used order w =
     (case functions_invoke env (retry_request env orderId_used order) w of
        (InvokeError msg, w') \<Rightarrow> (Some msg, console_error ''Payment error:'' w')
      | (InvokeData token redirect_url, w') \<Rightarrow>
          (case token of
             None \<Rightarrow> (Some ''Snap token tidak diterima'', w')
           | Some t \<Rightarrow>
               if t = [] then (Some ''Snap token tidak diterima'', w')
               else
                 (case exec_db env (UpdateOrder (oid order) (no_patch\<lparr>set_snap_token := Some t\<rparr>)) w' of
                    (Some err, w'') \<Rightarrow> snap_pay env t (console_error ''Error saving snap_token:'' w'')
                  | (None, w'') \<Rightarrow> snap_pay env t w'')))"

definition retry_try :: "env \<Rightarrow> string \<Rightarrow> order_row \<Rightarrow> world \<Rightarrow> string option \<times> world" where
  \<comment> \<open>The body of the \<^verbatim>\<open>try\<close>; \<open>newOrderId\<close> is the id the source would generate.\<close>
  "retry_try env newOrderId order w =
     (if truthy (snap_token order) then snap_pay env (the (snap_token order)) w
      else if truthy (midtrans_order_id order) then
        retry_fresh_token env (the (midtrans_order_id order)) order w
      else
        (case exec_db env (UpdateOrder (oid order) (no_patch\<lparr>set_midtrans_order_id := Some newOrderId\<rparr>)) w of
           (Some err, w') \<Rightarrow> (Some err, console_error ''Error updating order:'' w')
         | (None, w') \<Rightarrow> retry_fresh_token env newOrderId order w'))"

definition retryPayment :: "env \<Rightarrow> string \<Rightarrow> order_row \<Rightarrow> world \<Rightarrow> world" where
  "retryPayment env newOrderId order w =
     (case retry_try env newOrderId order w of
        (None, w') \<Rightarrow> w'
      | (Some msg, w') \<Rightarrow>
          toast ''Error'' (if msg = [] then ''Gagal memproses pembayaran'' else msg) Destructive
            (console_error ''Retry payment error:'' w'))"


subsection \<open>Checkout Aggregator (handleCheckout)\<close>

record cart_item =
  cart_name :: string
  cart_price :: rat
  cart_quantity :: rat
  cart_menu_item_id :: string
  cart_date :: "string option"
  cart_child_id :: "string option"
  cart_child_name :: "string option"
  cart_child_class :: "string option"
  cart_delivery_date :: "string option"

record child =
  child_id :: string
  name :: string
  class_name :: string

record checkout_state =
  children :: "child list"
  selectedChildId :: string
  notes_text :: string

text \<open>
  What the source takes from the clock, the random generator and the store's id column
  during one checkout.
\<close>

record checkout_fresh =
  orderNumber :: string
  new_order_id :: string
  midtransOrderId :: string
  today :: string

datatype checkout_result = Returned "order_row option" | Thrown string

definition childIdToUse :: "checkout_state \<Rightarrow> cart_item list \<Rightarrow> string option" where
  \<comment> \<open>\<^verbatim>\<open>selectedChildId || cartItems[0]?.child_id\<close>\<close>
  "childIdToUse st cartItems =
     (if selectedChildId st \<noteq> [] then Some (selectedChildId st)
      else case cartItems of [] \<Rightarrow> None | c # _ \<Rightarrow> cart_child_id c)"

definition selectedChild :: "checkout_state \<Rightarrow> cart_item list \<Rightarrow> string \<Rightarrow> child option" where
  "selectedChild st cartItems cid =
     (case find (\<lambda>c. child_id c = cid) (children st) of
        Some c \<Rightarrow> Some c
      | None \<Rightarrow>
          (case find (\<lambda>it. cart_child_id it = Some cid) cartItems of
             Some cartItem \<Rightarrow>
               Some \<lparr>child_id = cid, name = or_else (cart_child_name cartItem) ''Unknown'',
                     class_name = or_else (cart_child_class cartItem) []\<rparr>
           | None \<Rightarrow> None))"

definition new_order :: "user \<Rightarrow> checkout_state \<Rightarrow> checkout_fresh \<Rightarrow> child \<Rightarrow> rat \<Rightarrow> order_row" where
  \<comment> \<open>The row \<^verbatim>\<open>insert({...}).select().single()\<close> hands back: the inserted columns, the
      id the store gives it, and the other columns empty.\<close>
  "new_order u st fr ch totalAmount =
     \<lparr>oid = new_order_id fr, order_user_id = user_id u, order_number = orderNumber fr, child_name = name ch,
      child_class = class_name ch, total_amount = totalAmount, status = ''pending'',
      payment_status = ''pending'', payment_method = None, midtrans_order_id = None,
      snap_token = None,
      parent_notes = (if notes_text st = [] then None else Some (notes_text st)),
      order_line_items = []\<rparr>"

definition orderLineItems ::
    "checkout_fresh \<Rightarrow> order_row \<Rightarrow> string \<Rightarrow> child \<Rightarrow> cart_item list \<Rightarrow> line_item_row list" where
  "orderLineItems fr orderData cid ch cartItems =
     map (\<lambda>it.
            \<lparr>lr_order_id = oid orderData,
             lr_child_id = or_else (cart_child_id it) cid,
             lr_child_name = or_else (cart_child_name it) (name ch),
             lr_child_class = or_else (cart_child_class it) (class_name ch),
             lr_menu_item_id = cart_menu_item_id it,
             lr_quantity = cart_quantity it,
             lr_unit_price = cart_price it,
             lr_delivery_date =
               or_else (cart_delivery_date it) (or_else (cart_date it) (today fr)),
             lr_order_date = today fr\<rparr>) cartItems"

definition checkout_request :: "user \<Rightarrow> checkout_fresh \<Rightarrow> child \<Rightarrow> rat \<Rightarrow> cart_item list \<Rightarrow> request" where
  "checkout_request u fr ch totalAmount cartItems =
     \<lparr>orderId = Some (midtransOrderId fr),
      amount = Some totalAmount,
      customerDetails =
        Some \<lparr>first_name = Some (or_else (user_full_name u) ''Customer''),
              email = Some (or_else (user_email u) ''parent@example.com''),
              phone = Some (or_else (user_phone u) ''08123456789'')\<rparr>,
      itemDetails =
        Some (map (\<lambda>it. \<lparr>item_id = Some (cart_menu_item_id it),
                          item_name = Some (cart_name it @ '' - '' @ name ch),
                          item_price = Some (cart_price it),
                          item_quantity = Some (cart_quantity it)\<rparr>) cartItems),
      batchOrderIds = None\<rparr>"

definition checkout_pay ::
    "env \<Rightarrow> user \<Rightarrow> checkout_fresh \<Rightarrow> child \<Rightarrow> rat \<Rightarrow> cart_item list \<Rightarrow> order_row \<Rightarrow> world
       \<Rightarrow> checkout_result \<times> world" where
  \<comment> \<open>Lines 195 to 304: the order and its line items are stored; obtain the token.\<close>
  "checkout_pay env u fr ch totalAmount cartItems orderData w =
     (let w1 =
            (case exec_db env
                    (UpdateOrder (oid orderData)
                       (no_patch\<lparr>set_midtrans_order_id := Some (midtransOrderId fr)\<rparr>)) w of
               (Some err, w') \<Rightarrow> console_error ''Error updating order with midtrans_order_id:'' w'
             | (None, w') \<Rightarrow> w')
      in case functions_invoke env (checkout_request u fr ch totalAmount cartItems) w1 of
           (InvokeError msg, w2) \<Rightarrow>
             (Returned None,
              toast ''Error Pembayaran'' (if msg = [] then ''Gagal membuat pembayaran'' else msg)
                Destructive (console_error ''Payment error:'' w2))
         | (InvokeData token redirect_url, w2) \<Rightarrow>
             if truthy token then
               (let w3 = snd (exec_db env
                                (UpdateOrder (oid orderData)
                                   (no_patch\<lparr>set_snap_token := token\<rparr>)) w2)
                in if snap_loaded env then (Returned (Some orderData), emit (SnapPay (the token)) w3)
                   else
                     (Returned (Some orderData),
                      toast ''Error'' ''Sistem pembayaran belum siap. Silakan refresh halaman.''
                        Destructive (console_error ''Midtrans Snap not loaded'' w3)))
             else (Thrown ''Token pembayaran tidak diterima'', w2))"

definition checkout_try ::
    "env \<Rightarrow> user \<Rightarrow> checkout_state \<Rightarrow> checkout_fresh \<Rightarrow> string \<Rightarrow> cart_item list \<Rightarrow> world
       \<Rightarrow> checkout_result \<times> world" where
  \<comment> \<open>The body of the \<^verbatim>\<open>try\<close>, lines 103 to 304.\<close>
  "checkout_try env u st fr cid cartItems w =
     (let totalAmount = foldl (\<lambda>sum it. sum + cart_price it * cart_quantity it) 0 cartItems
      in case selectedChild st cartItems cid of
           None \<Rightarrow> (Thrown ''Data anak yang dipilih tidak ditemukan'', w)
         | Some ch \<Rightarrow>
             (let orderData = new_order u st fr ch totalAmount
              in case exec_db env (InsertOrder orderData) w of
                   (Some err, w1) \<Rightarrow>
                     (Thrown ''Gagal membuat pesanan utama'', console_error ''Error creating order:'' w1)
                 | (None, w1) \<Rightarrow>
                     (case exec_db env (InsertLineItems (orderLineItems fr orderData cid ch cartItems)) w1 of
                        (Some err, w2) \<Rightarrow>
                          (Thrown ''Gagal menyimpan detail pesanan'',
                           snd (exec_db env (DeleteOrder (oid orderData))
                                  (console_error ''Error creating order line items:'' w2)))
                      | (None, w2) \<Rightarrow>
                          checkout_pay env u fr ch totalAmount cartItems orderData w2)))"

definition handleCheckout ::
    "env \<Rightarrow> checkout_state \<Rightarrow> checkout_fresh \<Rightarrow> cart_item list \<Rightarrow> world
       \<Rightarrow> checkout_result \<times> world" where
  "handleCheckout env st fr cartItems w =
     (case auth_user env of
        None \<Rightarrow> (Returned None, toast ''Error'' ''Silakan login terlebih dahulu'' Destructive w)
      | Some u \<Rightarrow>
          if cartItems = [] then
            (Returned None, toast ''Error'' ''Keranjang belanja kosong'' Destructive w)
          else
            (case childIdToUse st cartItems of
               None \<Rightarrow> (Returned None, toast ''Error'' ''Data anak tidak ditemukan'' Destructive w)
             | Some cid \<Rightarrow>
                 if cid = [] then
                   (Returned None, toast ''Error'' ''Data anak tidak ditemukan'' Destructive w)
                 else
                   (case checkout_try env u st fr cid cartItems w of
                      (Thrown msg, w') \<Rightarrow>
                        (Thrown msg,
                         toast ''Error'' (if msg = [] then ''Gagal memproses checkout'' else msg)
                           Destructive (console_error ''Checkout error:'' w'))
                    | (Returned r, w') \<Rightarrow> (Returned r, w'))))"

subsection \<open>Cash settlement: CashPaymentV2.handlePayment\<close>

text \<open>
  \<open>receivedAmount\<close> is the value of \<^verbatim>\<open>parseFloat(receivedAmount)\<close>: \<open>None\<close> when the
  text field does not start with a number (\<^verbatim>\<open>NaN\<close>, for which every comparison is
  false).
\<close>

definition changeAmount :: "order_row option \<Rightarrow> rat option \<Rightarrow> rat option" where
  "changeAmount selectedOrder receivedAmount =
     (case selectedOrder of
        None \<Rightarrow> Some 0
      | Some order \<Rightarrow> map_option (\<lambda>r. r - total_amount order) receivedAmount)"

definition isValidPayment :: "order_row option \<Rightarrow> rat option \<Rightarrow> bool" where
  "isValidPayment selectedOrder receivedAmount =
     (case selectedOrder of
        None \<Rightarrow> False
      | Some order \<Rightarrow>
          (case receivedAmount of None \<Rightarrow> False | Some r \<Rightarrow> r \<ge> total_amount order))"

definition handlePayment ::
    "env \<Rightarrow> string \<Rightarrow> order_row option \<Rightarrow> rat option \<Rightarrow> world \<Rightarrow> world" where
  \<comment> \<open>\<open>transactionId\<close> is the \<^verbatim>\<open>CASH-...\<close> id the source builds from the clock.\<close>
  "handlePayment env transactionId selectedOrder receivedAmount w =
     (case selectedOrder of
        None \<Rightarrow>
          toast ''Error'' ''Jumlah uang yang diterima kurang dari total pembayaran'' Destructive w
      | Some order \<Rightarrow>
          if \<not> isValidPayment selectedOrder receivedAmount then
            toast ''Error'' ''Jumlah uang yang diterima kurang dari total pembayaran'' Destructive w
          else
            (case exec_db env
                    (UpdateOrder (oid order)
                       (no_patch\<lparr>set_payment_status := Some ''paid'',
                                 set_status := Some ''confirmed''\<rparr>)) w of
               (Some err, w1) \<Rightarrow>
                 toast ''Error'' ''Gagal memproses pembayaran'' Destructive
                   (console_error ''Error processing payment:'' w1)
             | (None, w1) \<Rightarrow>
                 (case exec_db env
                         (InsertPayment
                            \<lparr>pay_order_id = oid order, pay_amount = total_amount order,
                             pay_method = ''cash'', pay_status = ''success'',
                             pay_transaction_id = transactionId\<rparr>) w1 of
                    (Some err, w2) \<Rightarrow>
                      toast ''Error'' ''Gagal memproses pembayaran'' Destructive
                        (console_error ''Error processing payment:'' w2)
                  | (None, w2) \<Rightarrow>
                      toast ''Pembayaran Berhasil'' ''Pembayaran tunai telah diproses'' Default w2)))"

subsection \<open>Cash settlement: CashierPaymentV2.processPayment\<close>

record cashier_state =
  selectedOrder :: "order_row option"
  paymentAmount :: rat
  receivedAmount :: rat
  paymentNotes :: string

definition handleViewDetail :: "order_row \<Rightarrow> cashier_state \<Rightarrow> cashier_state" where
  "handleViewDetail order st =
     st\<lparr>selectedOrder := Some order, paymentAmount := total_amount order,
        receivedAmount := 0, paymentNotes := []\<rparr>"

definition setReceivedAmount :: "rat \<Rightarrow> cashier_state \<Rightarrow> cashier_state" where
  "setReceivedAmount r st = st\<lparr>receivedAmount := r\<rparr>"

definition processPayment ::
    "env \<Rightarrow> (rat \<Rightarrow> string) \<Rightarrow> cashier_state \<Rightarrow> world \<Rightarrow> cashier_state \<times> world" where
  \<comment> \<open>\<open>formatPrice\<close> is the helper of \<^verbatim>\<open>@/utils/orderUtils\<close>, which the repository's
      files do not contain; it only formats the text of the success message.\<close>
  "processPayment env formatPrice st w =
     (case selectedOrder st of
        None \<Rightarrow> (st, w)
      | Some order \<Rightarrow>
          if receivedAmount st < paymentAmount st then
            (st, toast ''Error'' ''Jumlah uang yang diterima kurang dari total pembayaran''
                   Destructive w)
          else
            (case exec_db env
                    (InsertCashPayment
                       \<lparr>cash_order_id = oid order, cash_amount = paymentAmount st,
                        received_amount = receivedAmount st,
                        change_amount = receivedAmount st - paymentAmount st,
                        cashier_id = (case auth_user env of None \<Rightarrow> [] | Some u \<Rightarrow> user_id u),
                        cash_notes = paymentNotes st\<rparr>) w of
               (Some err, w1) \<Rightarrow>
                 (st, toast ''Error'' ''Gagal memproses pembayaran'' Destructive
                        (console_error ''Error processing payment:'' w1))
             | (None, w1) \<Rightarrow>
                 (case exec_db env
                         (UpdateOrder (oid order)
                            (no_patch\<lparr>set_payment_status := Some ''paid'',
                                      set_payment_method := Some ''cash''\<rparr>)) w1 of
                    (Some err, w2) \<Rightarrow>
                      (st, toast ''Error'' ''Gagal memproses pembayaran'' Destructive
                             (console_error ''Error processing payment:'' w2))
                  | (None, w2) \<Rightarrow>
                      (st\<lparr>selectedOrder := None\<rparr>,
                       toast ''Berhasil''
                         (''Pembayaran berhasil diproses. Kembalian: ''
                            @ formatPrice (receivedAmount st - paymentAmount st))
                         Default w2))))"

section \<open>Observations on a run\<close>

text \<open>
  What a run added to the world is read off its list of effects: the payloads sent to
  the payment gateway, the invocations of the Gateway Transaction Function and the
  writes attempted on the Order Store, each in the order it happened.
\<close>

fun payload_of :: "event \<Rightarrow> midtrans_payload list" where
  "payload_of (GatewayCall p) = [p]"
| "payload_of _ = []"

fun invoke_of :: "event \<Rightarrow> request list" where
  "invoke_of (FunctionInvoke r) = [r]"
| "invoke_of _ = []"

fun write_of :: "event \<Rightarrow> db_op list" where
  "write_of (DbWrite op) = [op]"
| "write_of _ = []"

definition gateway_calls :: "world \<Rightarrow> midtrans_payload list" where
  "gateway_calls w = concat (map payload_of (effects w))"

definition invocations :: "world \<Rightarrow> request list" where
  "invocations w = concat (map invoke_of (effects w))"

definition db_writes :: "world \<Rightarrow> db_op list" where
  "db_writes w = concat (map write_of (effects w))"

definition stamped :: "string \<Rightarrow> string \<Rightarrow> string \<Rightarrow> world \<Rightarrow> bool" where
  \<comment> \<open>Every stored order with id \<open>i\<close> carries the pay-token \<open>t\<close> and the batch id \<open>b\<close>.\<close>
  "stamped t b i w =
     list_all (\<lambda>r. oid r \<noteq> i \<or> (snap_token r = Some t \<and> midtrans_order_id r = Some b)) (orders w)"

section \<open>Concrete runs\<close>

text \<open>
  An environment in which everything is configured, no store write fails and the
  gateway answers with a token; a world with empty tables; a request for one order.
\<close>

definition example_env :: env where
  "example_env =
     \<lparr>MIDTRANS_SERVER_KEY = Some ''SB-Mid-server-key'',
      SUPABASE_URL = Some ''https://project.supabase.co'',
      SUPABASE_SERVICE_ROLE_KEY = Some ''service-role-key'',
      db_error = (\<lambda>op. None),
      midtrans = (\<lambda>p. GatewayOk (Some ''snap-token-1'') (Some ''https://pay.example/1'')),
      snap_loaded = True,
      auth_user = Some \<lparr>user_id = ''u1'', user_email = Some ''ibu@example.com'',
                         user_full_name = Some ''Ibu Sari'', user_phone = None\<rparr>\<rparr>"

definition empty_world :: world where
  "empty_world =
     \<lparr>orders = [], order_line_item_rows = [], batch_orders = [], payments = [],
      cash_payments = [], effects = [], console = []\<rparr>"

definition plain_request :: request where
  "plain_request =
     \<lparr>orderId = Some ''ORDER-1'', amount = Some 50000, customerDetails = None,
      itemDetails = None, batchOrderIds = None\<rparr>"

text \<open>
  A batch request for three orders without an itemisation, an environment in which the
  insertion into \<^verbatim>\<open>batch_orders\<close> is refused, and one without the store's URL.
\<close>

definition batch_request_3 :: request where
  "batch_request_3 =
     \<lparr>orderId = Some ''BATCH-1'', amount = Some 60000, customerDetails = None,
      itemDetails = None, batchOrderIds = Some [''A'', ''B'', ''C'']\<rparr>"

definition failing_insert_env :: env where
  "failing_insert_env =
     example_env\<lparr>db_error :=
       (\<lambda>op. case op of InsertBatchOrders rows \<Rightarrow> Some ''permission denied'' | _ \<Rightarrow> None)\<rparr>"

definition unconfigured_env :: env where
  "unconfigured_env = example_env\<lparr>SUPABASE_URL := None\<rparr>"

text \<open>
  One item of price 100, and a request for half a portion of an item of price 201.
\<close>

definition nasi_item :: item where
  "nasi_item = \<lparr>item_id = Some ''m1'', item_name = Some ''Nasi'', item_price = Some 100,
                 item_quantity = Some 1\<rparr>"

definition half_portion_request :: request where
  "half_portion_request =
     \<lparr>orderId = Some ''ORDER-1'', amount = Some (201 / 2), customerDetails = None,
      itemDetails =
        Some [\<lparr>item_id = Some ''m1'', item_name = Some ''Nasi'', item_price = Some 201,
               item_quantity = Some (1 / 2)\<rparr>],
      batchOrderIds = None\<rparr>"

text \<open>
  Three pending orders of 10000, 20000 and 30000 and one paid order, the world that
  stores them, and an environment in which every update of order B fails.
\<close>

definition order_A :: order_row where
  "order_A =
     \<lparr>oid = ''A'', order_user_id = ''u1'', order_number = ''ORDER-A'', child_name = ''Budi'',
      child_class = ''1A'', total_amount = 10000, status = ''pending'',
      payment_status = ''pending'', payment_method = None, midtrans_order_id = None,
      snap_token = None, parent_notes = None,
      order_line_items =
        [\<lparr>li_id = ''a1'', li_quantity = 1, li_unit_price = 10000,
          li_menu_item_name = Some ''Nasi Goreng''\<rparr>]\<rparr>"

definition order_B :: order_row where
  "order_B =
     order_A\<lparr>oid := ''B'', order_number := ''ORDER-B'', total_amount := 20000,
       order_line_items :=
         [\<lparr>li_id = ''b1'', li_quantity = 2, li_unit_price = 10000,
           li_menu_item_name = Some ''Mie Ayam''\<rparr>]\<rparr>"

definition order_C :: order_row where
  "order_C =
     order_A\<lparr>oid := ''C'', order_number := ''ORDER-C'', child_name := ''Sari'',
       total_amount := 30000,
       order_line_items :=
         [\<lparr>li_id = ''c1'', li_quantity = 1, li_unit_price = 30000,
           li_menu_item_name = None\<rparr>]\<rparr>"

definition order_D :: order_row where
  "order_D =
     order_A\<lparr>oid := ''D'', order_number := ''ORDER-D'', total_amount := 15000,
       status := ''confirmed'', payment_status := ''paid'', order_line_items := []\<rparr>"

definition four_orders_world :: world where
  "four_orders_world = empty_world\<lparr>orders := [order_A, order_B, order_C, order_D]\<rparr>"

definition update_B_fails_env :: env where
  "update_B_fails_env =
     example_env\<lparr>db_error :=
       (\<lambda>op. case op of
                UpdateOrder i p \<Rightarrow> if i = ''B'' then Some ''row is locked'' else None
              | _ \<Rightarrow> None)\<rparr>"

text \<open>
  Order A with a cached pay-token, and an environment in which the payment widget's
  script has not been loaded.
\<close>

definition cached_order :: order_row where
  "cached_order = order_A\<lparr>midtrans_order_id := Some ''ORDER-OLD'', snap_token := Some ''cached-token''\<rparr>"

definition widget_missing_env :: env where
  "widget_missing_env = example_env\<lparr>snap_loaded := False\<rparr>"

text \<open>
  A cart of two lines totalling 50000 for one child, the state of the checkout form, the
  values one checkout draws, the order row it creates, an environment in which the
  insertion of line items is refused, and one in which the deletion of orders is
  refused as well.
\<close>

definition example_cart :: "cart_item list" where
  "example_cart =
     [\<lparr>cart_name = ''Nasi Goreng'', cart_price = 15000, cart_quantity = 2,
       cart_menu_item_id = ''m1'', cart_date = Some ''2025-01-20'', cart_child_id = Some ''c1'',
       cart_child_name = Some ''Budi'', cart_child_class = Some ''1A'',
       cart_delivery_date = None\<rparr>,
      \<lparr>cart_name = ''Mie Ayam'', cart_price = 20000, cart_quantity = 1,
       cart_menu_item_id = ''m2'', cart_date = Some ''2025-01-20'', cart_child_id = Some ''c1'',
       cart_child_name = Some ''Budi'', cart_child_class = Some ''1A'',
       cart_delivery_date = None\<rparr>]"

definition example_state :: checkout_state where
  "example_state =
     \<lparr>children = [\<lparr>child_id = ''c1'', name = ''Budi'', class_name = ''1A''\<rparr>],
      selectedChildId = ''c1'', notes_text = []\<rparr>"

definition example_fresh :: checkout_fresh where
  "example_fresh =
     \<lparr>orderNumber = ''ORDER-100'', new_order_id = ''N1'', midtransOrderId = ''ORDER-200'',
      today = ''2025-01-15''\<rparr>"

definition line_items_fail_env :: env where
  "line_items_fail_env =
     example_env\<lparr>db_error :=
       (\<lambda>op. case op of InsertLineItems rows \<Rightarrow> Some ''violates row-level security''
                        | _ \<Rightarrow> None)\<rparr>"

definition delete_fails_too_env :: env where
  "delete_fails_too_env =
     example_env\<lparr>db_error :=
       (\<lambda>op. case op of InsertLineItems rows \<Rightarrow> Some ''violates row-level security''
                        | DeleteOrder i \<Rightarrow> Some ''violates row-level security''
                        | _ \<Rightarrow> None)\<rparr>"

definition example_new_order :: order_row where
  "example_new_order =
     \<lparr>oid = ''N1'', order_user_id = ''u1'', order_number = ''ORDER-100'', child_name = ''Budi'',
      child_class = ''1A'', total_amount = 50000, status = ''pending'',
      payment_status = ''pending'', payment_method = None, midtrans_order_id = None,
      snap_token = None, parent_notes = None, order_line_items = []\<rparr>"

text \<open>
  A pending order of 50000 and the world that stores it, the cashier's form before an
  order is selected, and a stand-in for the price formatter.
\<close>

definition order_E :: order_row where
  "order_E = order_A\<lparr>oid := ''E'', order_number := ''ORDER-E'', total_amount := 50000\<rparr>"

definition order_E_world :: world where
  "order_E_world = empty_world\<lparr>orders := [order_E]\<rparr>"

definition idle_cashier :: cashier_state where
  "idle_cashier =
     \<lparr>selectedOrder = None, paymentAmount = 0, receivedAmount = 0, paymentNotes = []\<rparr>"

definition rupiah :: "rat \<Rightarrow> string" where
  "rupiah x = ''Rp '' @ string_of_nat (nat \<lfloor>x\<rfloor>)"

section \<open>Basic facts\<close>

subsection \<open>Rounding\<close>

lemma floor_rat_numeral [simp]:
  "\<lfloor>numeral a / numeral b :: rat\<rfloor> = numeral a div numeral b"
  by (metis floor_divide_of_int_eq of_int_numeral)

lemma Math_round_of_int [simp]: "Math_round (of_int k) = of_int k"
proof -
  have "\<lfloor>(of_int k :: rat) + 1 / 2\<rfloor> = k" by linarith
  then show ?thesis by (simp add: Math_round_def)
qed

lemma Math_round_Ints: "x \<in> \<int> \<Longrightarrow> Math_round x = x"
  by (auto elim: Ints_cases)

lemma Math_round_in_Ints [simp]: "Math_round x \<in> \<int>"
  by (simp add: Math_round_def)

subsection \<open>What each step leaves alone\<close>

lemma effects_emit [simp]: "effects (emit e w) = effects w @ [e]"
  by (simp add: emit_def)

lemma effects_console_error [simp]: "effects (console_error l w) = effects w"
  by (simp add: console_error_def)

lemma effects_toast [simp]: "effects (toast a b c w) = effects w @ [Toast a b c]"
  by (simp add: toast_def)

lemma effects_apply_db [simp]: "effects (apply_db op w) = effects w"
  by (cases op) simp_all

lemma effects_exec_db [simp]: "effects (snd (exec_db env op w)) = effects w @ [DbWrite op]"
  by (simp add: exec_db_def split: option.splits)

lemma fst_exec_db [simp]: "fst (exec_db env op w) = db_error env op"
  by (simp add: exec_db_def split: option.splits)

lemma console_emit [simp]: "console (emit e w) = console w"
  by (simp add: emit_def)

lemma console_console_error [simp]: "console (console_error l w) = console w @ [l]"
  by (simp add: console_error_def)

lemma orders_emit [simp]: "orders (emit e w) = orders w"
  by (simp add: emit_def)

lemma orders_console_error [simp]: "orders (console_error l w) = orders w"
  by (simp add: console_error_def)

lemma orders_toast [simp]: "orders (toast a b c w) = orders w"
  by (simp add: toast_def)

lemma batch_orders_emit [simp]: "batch_orders (emit e w) = batch_orders w"
  by (simp add: emit_def)

lemma batch_orders_console_error [simp]: "batch_orders (console_error l w) = batch_orders w"
  by (simp add: console_error_def)

lemma batch_orders_toast [simp]: "batch_orders (toast a b c w) = batch_orders w"
  by (simp add: toast_def)

lemma orders_snap_pay [simp]: "orders (snd (snap_pay env t w)) = orders w"
  by (simp add: snap_pay_def)

lemma batch_orders_snap_pay [simp]: "batch_orders (snd (snap_pay env t w)) = batch_orders w"
  by (simp add: snap_pay_def)

lemma exec_db_ok:
  "db_error env op = None \<Longrightarrow> exec_db env op w = (None, apply_db op (emit (DbWrite op) w))"
  by (simp add: exec_db_def)

lemma exec_db_failed:
  "db_error env op = Some msg \<Longrightarrow> exec_db env op w = (Some msg, emit (DbWrite op) w)"
  by (simp add: exec_db_def)

lemma orders_exec_update:
  "orders (snd (exec_db env (UpdateOrder i p) w)) =
     (if db_error env (UpdateOrder i p) = None
      then map (\<lambda>r. if oid r = i then apply_patch p r else r) (orders w)
      else orders w)"
  by (simp add: exec_db_def split: option.splits)

lemma batch_orders_update [simp]:
  "batch_orders (snd (exec_db env (UpdateOrder i p) w)) = batch_orders w"
  by (simp add: exec_db_def split: option.splits)

lemma batch_orders_exec_insert:
  "batch_orders (snd (exec_db env (InsertBatchOrders rows) w)) =
     batch_orders w @ (if db_error env (InsertBatchOrders rows) = None then rows else [])"
  by (simp add: exec_db_def split: option.splits)

lemma orders_exec_db_batch [simp]:
  "orders (snd (exec_db env (InsertBatchOrders bs) w)) = orders w"
  by (simp add: exec_db_def split: option.splits)

lemma oid_apply_patch [simp]: "oid (apply_patch p r) = oid r"
  by (simp add: apply_patch_def)

lemma oids_update [simp]:
  "map oid (orders (snd (exec_db env (UpdateOrder i p) w))) = map oid (orders w)"
  by (simp add: orders_exec_update comp_def)

subsection \<open>The handler, step by step\<close>

lemma orders_save_batch_mapping [simp]:
  "orders (snd (save_batch_mapping env oi bs w)) = orders w"
  by (simp add: save_batch_mapping_def Let_def split_beta split: option.splits)

lemma orders_call_midtrans [simp]: "orders (snd (call_midtrans env p w)) = orders w"
  by (simp add: call_midtrans_def Let_def split: gateway_reply.splits)

lemma batch_orders_call_midtrans [simp]:
  "batch_orders (snd (call_midtrans env p w)) = batch_orders w"
  by (simp add: call_midtrans_def Let_def split: gateway_reply.splits)

lemma effects_call_midtrans [simp]:
  "effects (snd (call_midtrans env p w)) = effects w @ [GatewayCall p]"
  by (simp add: call_midtrans_def Let_def split: gateway_reply.splits)

lemma orders_create_payment [simp]: "orders (snd (create_payment env req w)) = orders w"
  by (simp add: create_payment_def split_beta split: option.splits)

lemma orders_serve [simp]: "orders (snd (serve env m req w)) = orders w"
  by (simp add: serve_def split_beta split: sum.splits)

lemma serve_POST_not_Preflight [simp]: "fst (serve env POST req w) \<noteq> Preflight"
  by (simp add: serve_def split_beta split: sum.splits)

lemma fst_save_batch_mapping_None:
  "fst (save_batch_mapping env oi bs w) = None \<longleftrightarrow>
     (case bs of
        None \<Rightarrow> True
      | Some ids \<Rightarrow>
          ids = [] \<or> \<not> (truthy (SUPABASE_URL env) \<and> truthy (SUPABASE_SERVICE_ROLE_KEY env))
          \<or> db_error env (InsertBatchOrders (map (\<lambda>i. \<lparr>batch_id = oi, batch_order_id = i\<rparr>) ids)) = None)"
  by (simp add: save_batch_mapping_def Let_def split_beta split: option.splits)

lemma batch_orders_save_batch_mapping:
  assumes "fst (save_batch_mapping env oi bs w) = None"
  shows "batch_orders (snd (save_batch_mapping env oi bs w)) =
     batch_orders w @
       (if truthy (SUPABASE_URL env) \<and> truthy (SUPABASE_SERVICE_ROLE_KEY env)
        then (case bs of None \<Rightarrow> [] | Some ids \<Rightarrow> map (\<lambda>i. \<lparr>batch_id = oi, batch_order_id = i\<rparr>) ids)
        else [])"
proof (cases bs)
  case None
  then show ?thesis by (simp add: save_batch_mapping_def)
next
  case (Some ids)
  with assms have
    "ids = [] \<or> \<not> (truthy (SUPABASE_URL env) \<and> truthy (SUPABASE_SERVICE_ROLE_KEY env))
     \<or> db_error env (InsertBatchOrders (map (\<lambda>i. \<lparr>batch_id = oi, batch_order_id = i\<rparr>) ids)) = None"
    by (simp add: fst_save_batch_mapping_None)
  then show ?thesis
    using Some
    by (auto simp: save_batch_mapping_def Let_def split_beta batch_orders_exec_insert)
qed

lemma effects_save_batch_mapping:
  "effects (snd (save_batch_mapping env oi bs w)) =
     effects w @
       (case bs of
          None \<Rightarrow> []
        | Some ids \<Rightarrow>
            if ids \<noteq> [] \<and> truthy (SUPABASE_URL env) \<and> truthy (SUPABASE_SERVICE_ROLE_KEY env)
            then [DbWrite (InsertBatchOrders (map (\<lambda>i. \<lparr>batch_id = oi, batch_order_id = i\<rparr>) ids))]
            else [])"
  by (simp add: save_batch_mapping_def Let_def split_beta split: option.splits)

lemma create_payment_valid:
  assumes "orderId req = Some oi" "oi \<noteq> []" "amount req = Some a" "0 < a"
      and "truthy (MIDTRANS_SERVER_KEY env)"
  shows "create_payment env req w =
           (case fst (save_batch_mapping env oi (batchOrderIds req) w) of
              Some msg \<Rightarrow> (Inl msg, snd (save_batch_mapping env oi (batchOrderIds req) w))
            | None \<Rightarrow>
                call_midtrans env (midtransPayload oi a req)
                  (snd (save_batch_mapping env oi (batchOrderIds req) w)))"
  using assms by (simp add: create_payment_def split_beta split: option.splits)

lemma create_payment_Inr:
  assumes "fst (create_payment env req w) = Inr r"
  shows "\<exists>oi a. orderId req = Some oi \<and> oi \<noteq> [] \<and> amount req = Some a \<and> 0 < a
           \<and> truthy (MIDTRANS_SERVER_KEY env)
           \<and> fst (save_batch_mapping env oi (batchOrderIds req) w) = None
           \<and> create_payment env req w =
               call_midtrans env (midtransPayload oi a req)
                 (snd (save_batch_mapping env oi (batchOrderIds req) w))"
proof -
  from assms obtain oi where 1: "orderId req = Some oi" "oi \<noteq> []"
    by (cases "orderId req") (auto simp: create_payment_def split: if_splits)
  from assms 1 obtain a where 2: "amount req = Some a" "0 < a"
    by (cases "amount req") (auto simp: create_payment_def split: if_splits)
  from assms 1 2 have 3: "truthy (MIDTRANS_SERVER_KEY env)"
    by (auto simp: create_payment_def split: if_splits)
  note v = create_payment_valid [OF 1 2 3, of w]
  from assms v have 4: "fst (save_batch_mapping env oi (batchOrderIds req) w) = None"
    by (cases "fst (save_batch_mapping env oi (batchOrderIds req) w)") simp_all
  with v have "create_payment env req w =
               call_midtrans env (midtransPayload oi a req)
                 (snd (save_batch_mapping env oi (batchOrderIds req) w))"
    by simp
  with 1 2 3 4 show ?thesis by blast
qed

lemma serve_Ok200:
  assumes "fst (serve env POST req w) = Ok200 t u"
  shows "\<exists>oi a. orderId req = Some oi \<and> oi \<noteq> [] \<and> amount req = Some a \<and> 0 < a
           \<and> truthy (MIDTRANS_SERVER_KEY env)
           \<and> fst (save_batch_mapping env oi (batchOrderIds req) w) = None
           \<and> midtrans env (midtransPayload oi a req) = GatewayOk t u
           \<and> snd (serve env POST req w) =
                emit (GatewayCall (midtransPayload oi a req))
                  (snd (save_batch_mapping env oi (batchOrderIds req) w))"
proof -
  from assms have "fst (create_payment env req w) = Inr (t, u)"
    by (auto simp: serve_def split_beta split: sum.splits)
  from create_payment_Inr [OF this] obtain oi a where
    h: "orderId req = Some oi" "oi \<noteq> []" "amount req = Some a" "0 < a"
       "truthy (MIDTRANS_SERVER_KEY env)"
       "fst (save_batch_mapping env oi (batchOrderIds req) w) = None"
       "create_payment env req w =
          call_midtrans env (midtransPayload oi a req)
            (snd (save_batch_mapping env oi (batchOrderIds req) w))"
    by blast
  from assms h(7) have "midtrans env (midtransPayload oi a req) = GatewayOk t u
       \<and> snd (serve env POST req w) =
                emit (GatewayCall (midtransPayload oi a req))
                  (snd (save_batch_mapping env oi (batchOrderIds req) w))"
    by (simp add: serve_def call_midtrans_def Let_def split: gateway_reply.splits)
  with h show ?thesis by blast
qed

lemma effects_serve_valid:
  assumes "orderId req = Some oi" "oi \<noteq> []" "amount req = Some a" "0 < a"
      and "truthy (MIDTRANS_SERVER_KEY env)"
  shows "effects (snd (serve env POST req w)) =
           effects (snd (save_batch_mapping env oi (batchOrderIds req) w)) @
             (if fst (save_batch_mapping env oi (batchOrderIds req) w) = None
              then [GatewayCall (midtransPayload oi a req)] else [])"
  by (simp add: serve_def create_payment_valid [OF assms] split_beta
      split: option.splits sum.splits)

lemma snd_functions_invoke:
  "snd (functions_invoke env req w) = snd (serve env POST req (emit (FunctionInvoke req) w))"
  by (simp add: functions_invoke_def split_beta split: response.splits)

lemma fst_functions_invoke_data:
  "fst (functions_invoke env req w) = InvokeData t u \<longleftrightarrow>
     fst (serve env POST req (emit (FunctionInvoke req) w)) = Ok200 t u"
proof (cases "fst (serve env POST req (emit (FunctionInvoke req) w))")
  case Preflight
  then show ?thesis
    using serve_POST_not_Preflight [of env req "emit (FunctionInvoke req) w"] by simp
next
  case (Ok200 x1 x2)
  then show ?thesis by (simp add: functions_invoke_def split_beta)
next
  case (Error500 m)
  then show ?thesis by (simp add: functions_invoke_def split_beta)
qed

lemma orders_functions_invoke [simp]: "orders (snd (functions_invoke env req w)) = orders w"
  by (simp add: snd_functions_invoke)

subsection \<open>Totals of normalised items\<close>

lemma foldl_total_Ints:
  assumes "acc \<in> \<int>" and "\<forall>d \<in> set ds. detail_price d \<in> \<int> \<and> detail_quantity d \<in> \<int>"
  shows "foldl (\<lambda>sum d. sum + detail_price d * detail_quantity d) acc ds \<in> \<int>"
  using assms by (induction ds arbitrary: acc) auto

lemma calculatedTotal_Ints:
  "\<forall>d \<in> set ds. detail_price d \<in> \<int> \<and> detail_quantity d \<in> \<int> \<Longrightarrow> calculatedTotal ds \<in> \<int>"
  unfolding calculatedTotal_def by (rule foldl_total_Ints) auto

lemma normalize_items_fields:
  assumes "d \<in> set (normalize_items xs)"
  shows "\<exists>it \<in> set xs. detail_price d = Math_round (num_or (item_price it) 0)
           \<and> detail_quantity d = num_or (item_quantity it) 1"
  using assms
  by (auto simp: normalize_items_def normalize_item_def Let_def dest!: set_zip_leftD)

lemma normalize_items_total_Ints:
  assumes "\<forall>it \<in> set xs. num_or (item_quantity it) 1 \<in> \<int>"
  shows "calculatedTotal (normalize_items xs) \<in> \<int>"
proof (rule calculatedTotal_Ints, rule ballI)
  fix d assume "d \<in> set (normalize_items xs)"
  then obtain it where "it \<in> set xs" "detail_price d = Math_round (num_or (item_price it) 0)"
    "detail_quantity d = num_or (item_quantity it) 1"
    using normalize_items_fields by blast
  with assms show "detail_price d \<in> \<int> \<and> detail_quantity d \<in> \<int>" by simp
qed

lemma calculatedTotal_summary [simp]: "calculatedTotal [summary_item oi a bs] = Math_round a"
  by (simp add: calculatedTotal_def summary_item_def)

lemma reconciliation_whole_quantities:
  assumes "\<forall>it \<in> set xs. num_or (item_quantity it) 1 \<in> \<int>"
  shows "calculatedTotal (finalItemDetails oi a (Some xs) bs) = Math_round a"
proof (cases "xs \<noteq> [] \<and> calculatedTotal (normalize_items xs) = a")
  case True
  then have "a \<in> \<int>" using normalize_items_total_Ints [OF assms] by simp
  then show ?thesis using True by (simp add: finalItemDetails_def Math_round_Ints)
next
  case False
  then show ?thesis by (auto simp: finalItemDetails_def Let_def)
qed

section \<open>Claims about the Gateway Transaction Function\<close>

lemma frame_console_error [simp]:
  "(console_error l w)\<lparr>console := c\<rparr> = w\<lparr>console := c\<rparr>"
  by (simp add: console_error_def)

text \<open>
  Claim C5. A request whose \<^verbatim>\<open>orderId\<close> is missing or empty, or whose
  \<^verbatim>\<open>amount\<close> is missing, zero or negative, is answered with status 500 and a
  message naming the field; the run writes nothing to the Order Store and sends nothing
  to the payment gateway: apart from the lines on the console, the world is the one the
  run started in.
\<close>

theorem validation_before_side_effect:
  assumes "orderId req = None \<or> orderId req = Some [] \<or> amount req = None
             \<or> (\<exists>a. amount req = Some a \<and> a \<le> 0)"
  shows "fst (serve env POST req w) =
           Error500 (if truthy (orderId req) then ''Valid amount is required''
                     else ''Order ID is required'')
         \<and> (snd (serve env POST req w))\<lparr>console := console w\<rparr> = w
         \<and> effects (snd (serve env POST req w)) = effects w"
  using assms
  by (auto simp: serve_def create_payment_def truthy_def split: option.splits)

theorem validation_before_side_effect_witness:
  "fst (serve example_env POST (plain_request\<lparr>amount := Some 0\<rparr>) empty_world) =
      Error500 ''Valid amount is required''
   \<and> fst (serve example_env POST (plain_request\<lparr>orderId := None\<rparr>) empty_world) =
      Error500 ''Order ID is required''
   \<and> effects (snd (serve example_env POST (plain_request\<lparr>amount := Some 0\<rparr>) empty_world)) = []
   \<and> (snd (serve example_env POST (plain_request\<lparr>orderId := None\<rparr>) empty_world))
        \<lparr>console := []\<rparr> = empty_world"
  using validation_before_side_effect [of "plain_request\<lparr>amount := Some 0\<rparr>" example_env empty_world]
    validation_before_side_effect [of "plain_request\<lparr>orderId := None\<rparr>" example_env empty_world]
  by (simp add: plain_request_def empty_world_def truthy_def)

text \<open>
  Claim C6. For a request that passes validation, with the gateway key configured and a
  non-empty \<^verbatim>\<open>batchOrderIds\<close>: when the store is configured, one
  \<^verbatim>\<open>batch_orders\<close> row per order id is inserted, and the gateway is called after
  that insertion; when the insertion fails the request fails with the store's message
  and the gateway is not called; when the store's configuration is missing the problem is
  written to the console, no row is written, and the gateway is called all the same.
\<close>

theorem batch_mapping_before_gateway:
  assumes "orderId req = Some oi" "oi \<noteq> []" "amount req = Some a" "0 < a"
      and "truthy (MIDTRANS_SERVER_KEY env)"
      and "batchOrderIds req = Some ids" "ids \<noteq> []"
  shows
   "(let rows = map (\<lambda>i. \<lparr>batch_id = oi, batch_order_id = i\<rparr>) ids;
         payload = midtransPayload oi a req;
         r = serve env POST req w
     in (truthy (SUPABASE_URL env) \<and> truthy (SUPABASE_SERVICE_ROLE_KEY env) \<longrightarrow>
          (case db_error env (InsertBatchOrders rows) of
             None \<Rightarrow>
               effects (snd r) = effects w @ [DbWrite (InsertBatchOrders rows), GatewayCall payload]
               \<and> batch_orders (snd r) = batch_orders w @ rows
           | Some msg \<Rightarrow>
               fst r = Error500 (''Database error: Failed to save batch mapping: '' @ msg)
               \<and> effects (snd r) = effects w @ [DbWrite (InsertBatchOrders rows)]
               \<and> batch_orders (snd r) = batch_orders w))
      \<and> (\<not> (truthy (SUPABASE_URL env) \<and> truthy (SUPABASE_SERVICE_ROLE_KEY env)) \<longrightarrow>
            effects (snd r) = effects w @ [GatewayCall payload]
            \<and> batch_orders (snd r) = batch_orders w
            \<and> ''Supabase configuration missing for batch mapping'' \<in> set (console (snd r))
            \<and> (\<forall>t u. midtrans env payload = GatewayOk t u \<longrightarrow> fst r = Ok200 t u)))"
  using assms
  by (auto simp: serve_def create_payment_def save_batch_mapping_def call_midtrans_def
      exec_db_def Let_def
      split: option.splits gateway_reply.splits prod.splits sum.splits)

theorem batch_mapping_before_gateway_witness:
  "effects (snd (serve example_env POST batch_request_3 empty_world)) =
     [DbWrite (InsertBatchOrders
        [\<lparr>batch_id = ''BATCH-1'', batch_order_id = ''A''\<rparr>,
         \<lparr>batch_id = ''BATCH-1'', batch_order_id = ''B''\<rparr>,
         \<lparr>batch_id = ''BATCH-1'', batch_order_id = ''C''\<rparr>]),
      GatewayCall (midtransPayload ''BATCH-1'' 60000 batch_request_3)]
   \<and> fst (serve failing_insert_env POST batch_request_3 empty_world) =
       Error500 ''Database error: Failed to save batch mapping: permission denied''
   \<and> effects (snd (serve failing_insert_env POST batch_request_3 empty_world)) =
     [DbWrite (InsertBatchOrders
        [\<lparr>batch_id = ''BATCH-1'', batch_order_id = ''A''\<rparr>,
         \<lparr>batch_id = ''BATCH-1'', batch_order_id = ''B''\<rparr>,
         \<lparr>batch_id = ''BATCH-1'', batch_order_id = ''C''\<rparr>])]
   \<and> effects (snd (serve unconfigured_env POST batch_request_3 empty_world)) =
       [GatewayCall (midtransPayload ''BATCH-1'' 60000 batch_request_3)]
   \<and> batch_orders (snd (serve unconfigured_env POST batch_request_3 empty_world)) = []
   \<and> fst (serve unconfigured_env POST batch_request_3 empty_world) =
       Ok200 (Some ''snap-token-1'') (Some ''https://pay.example/1'')"
  using
    batch_mapping_before_gateway [of batch_request_3 "''BATCH-1''" 60000 example_env
      "[''A'', ''B'', ''C'']" empty_world]
    batch_mapping_before_gateway [of batch_request_3 "''BATCH-1''" 60000 failing_insert_env
      "[''A'', ''B'', ''C'']" empty_world]
    batch_mapping_before_gateway [of batch_request_3 "''BATCH-1''" 60000 unconfigured_env
      "[''A'', ''B'', ''C'']" empty_world]
  by (simp add: batch_request_3_def example_env_def failing_insert_env_def unconfigured_env_def
      empty_world_def truthy_def Let_def)

text \<open>
  Claim C10. A request that passes validation and carries no \<^verbatim>\<open>itemDetails\<close>
  (absent or empty) is sent to the gateway with exactly one line item: its id is the
  \<^verbatim>\<open>orderId\<close>, its price the rounded amount, its quantity 1, and its name
  "Batch Payment (n orders)" when \<^verbatim>\<open>batchOrderIds\<close> has more than one entry and
  "Payment" otherwise; the item total equals the gross amount. The payload is the only one
  the run sends, and it is sent unless the batch mapping failed.
\<close>

theorem unitemized_request_single_item:
  assumes "orderId req = Some oi" "oi \<noteq> []" "amount req = Some a" "0 < a"
      and "truthy (MIDTRANS_SERVER_KEY env)"
      and "itemDetails req = None \<or> itemDetails req = Some []"
  shows "item_details (midtransPayload oi a req) =
           [\<lparr>detail_id = oi, detail_price = Math_round a, detail_quantity = 1,
             detail_name =
               (case batchOrderIds req of
                  None \<Rightarrow> ''Payment''
                | Some ids \<Rightarrow>
                    if 1 < length ids
                    then ''Batch Payment ('' @ string_of_nat (length ids) @ '' orders)''
                    else ''Payment'')\<rparr>]
         \<and> calculatedTotal (item_details (midtransPayload oi a req)) =
             td_gross_amount (midtransPayload oi a req)
         \<and> gateway_calls (snd (serve env POST req w)) =
             gateway_calls w @
               (if fst (save_batch_mapping env oi (batchOrderIds req) w) = None
                then [midtransPayload oi a req] else [])"
proof -
  have items: "item_details (midtransPayload oi a req) = [summary_item oi a (batchOrderIds req)]"
    using assms(6) by (auto simp: midtransPayload_def finalItemDetails_def)
  have "effects (snd (serve env POST req w)) =
          effects w @
            (case batchOrderIds req of
               None \<Rightarrow> []
             | Some ids \<Rightarrow>
                 if ids \<noteq> [] \<and> truthy (SUPABASE_URL env) \<and> truthy (SUPABASE_SERVICE_ROLE_KEY env)
                 then [DbWrite (InsertBatchOrders (map (\<lambda>i. \<lparr>batch_id = oi, batch_order_id = i\<rparr>) ids))]
                 else []) @
            (if fst (save_batch_mapping env oi (batchOrderIds req) w) = None
             then [GatewayCall (midtransPayload oi a req)] else [])"
    by (simp add: effects_serve_valid [OF assms(1-5)] effects_save_batch_mapping)
  then have calls: "gateway_calls (snd (serve env POST req w)) =
             gateway_calls w @
               (if fst (save_batch_mapping env oi (batchOrderIds req) w) = None
                then [midtransPayload oi a req] else [])"
    by (simp add: gateway_calls_def split: option.splits)
  have gross: "td_gross_amount (midtransPayload oi a req) = Math_round a"
    by (simp add: midtransPayload_def)
  have total: "calculatedTotal [summary_item oi a (batchOrderIds req)] = Math_round a"
    by simp
  have name: "summary_item oi a (batchOrderIds req) =
           \<lparr>detail_id = oi, detail_price = Math_round a, detail_quantity = 1,
             detail_name =
               (case batchOrderIds req of
                  None \<Rightarrow> ''Payment''
                | Some ids \<Rightarrow>
                    if 1 < length ids
                    then ''Batch Payment ('' @ string_of_nat (length ids) @ '' orders)''
                    else ''Payment'')\<rparr>"
    by (simp add: summary_item_def summary_name_def split: option.splits)
  show ?thesis
    unfolding items gross total calls using name by simp
qed

theorem unitemized_request_single_item_witness:
  "item_details (midtransPayload ''BATCH-1'' 60000 batch_request_3) =
     [\<lparr>detail_id = ''BATCH-1'', detail_price = 60000, detail_quantity = 1,
       detail_name = ''Batch Payment (3 orders)''\<rparr>]
   \<and> item_details (midtransPayload ''ORDER-1'' 50000 plain_request) =
     [\<lparr>detail_id = ''ORDER-1'', detail_price = 50000, detail_quantity = 1,
       detail_name = ''Payment''\<rparr>]
   \<and> gateway_calls (snd (serve example_env POST plain_request empty_world)) =
       [midtransPayload ''ORDER-1'' 50000 plain_request]"
  using
    unitemized_request_single_item [of batch_request_3 "''BATCH-1''" 60000 example_env empty_world]
    unitemized_request_single_item [of plain_request "''ORDER-1''" 50000 example_env empty_world]
  by (simp add: batch_request_3_def plain_request_def example_env_def empty_world_def
      truthy_def Math_round_def string_of_nat.simps save_batch_mapping_def gateway_calls_def)

text \<open>
  Claim C1 says that every accepted request reaches the gateway with item totals equal to
  the rounded amount, the summary item replacing an itemisation that does not reconcile.
  The handler does not keep to it. It keeps an itemisation whose total equals the amount
  as received, and sends the rounded amount as \<^verbatim>\<open>gross_amount\<close>: for half a
  portion of an item of price 201 and an amount of 100.5 the gateway is sent items
  totalling 100.5 against a gross amount of 101. (With whole-number quantities the
  totals always reconcile: \<open>reconciliation_whole_quantities\<close>.)
\<close>

theorem fractional_quantity_mismatch:
  "gateway_calls (snd (serve example_env POST half_portion_request empty_world)) =
     [\<lparr>td_order_id = ''ORDER-1'', td_gross_amount = 101,
       customer_details = defaultCustomerDetails,
       item_details =
         [\<lparr>detail_id = ''m1'', detail_price = 201, detail_quantity = 1 / 2,
           detail_name = ''Nasi''\<rparr>],
       credit_card_secure = True\<rparr>]
   \<and> calculatedTotal
        [\<lparr>detail_id = ''m1'', detail_price = 201, detail_quantity = 1 / 2,
          detail_name = ''Nasi''\<rparr>] = 201 / 2
   \<and> Math_round (201 / 2) = 101"
  by (simp add: half_portion_request_def example_env_def empty_world_def gateway_calls_def
      serve_def create_payment_def save_batch_mapping_def call_midtrans_def emit_def
      midtransPayload_def finalItemDetails_def finalCustomerDetails_def normalize_items_def
      normalize_item_def calculatedTotal_def truthy_def or_else_def num_or_def Math_round_def
      Let_def)

text \<open>
  Claim C2, as amended. For a request with a non-empty \<^verbatim>\<open>itemDetails\<close> whose
  quantities are whole numbers, the summary item replaces the itemisation exactly when
  the total of the normalised items differs from the amount as received, that is, when
  the amount is not a whole number or the total differs from the rounded amount. The
  summary item has the \<^verbatim>\<open>orderId\<close> as id, the rounded amount as price, quantity 1,
  and the name "Batch Payment (n orders)" when \<^verbatim>\<open>batchOrderIds\<close> has more than one
  entry, "Payment" otherwise.
\<close>

theorem summary_item_substitution:
  assumes "xs \<noteq> []" and "\<forall>it \<in> set xs. num_or (item_quantity it) 1 \<in> \<int>"
  shows "finalItemDetails oi a (Some xs) bs =
           (if a \<in> \<int> \<and> calculatedTotal (normalize_items xs) = Math_round a
            then normalize_items xs
            else [\<lparr>detail_id = oi, detail_price = Math_round a, detail_quantity = 1,
                  detail_name =
                    (case bs of
                       None \<Rightarrow> ''Payment''
                     | Some ids \<Rightarrow>
                         if 1 < length ids
                         then ''Batch Payment ('' @ string_of_nat (length ids) @ '' orders)''
                         else ''Payment'')\<rparr>])
         \<and> (calculatedTotal (normalize_items xs) \<noteq> a \<longleftrightarrow>
              a \<notin> \<int> \<or> calculatedTotal (normalize_items xs) \<noteq> Math_round a)"
proof -
  have eq: "calculatedTotal (normalize_items xs) = a \<longleftrightarrow>
          a \<in> \<int> \<and> calculatedTotal (normalize_items xs) = Math_round a"
    using normalize_items_total_Ints [OF assms(2)] by (auto simp: Math_round_Ints)
  have "finalItemDetails oi a (Some xs) bs =
          (if calculatedTotal (normalize_items xs) \<noteq> a then [summary_item oi a bs]
           else normalize_items xs)"
    using assms(1) by (simp add: finalItemDetails_def Let_def)
  then show ?thesis
    using eq by (simp add: summary_item_def summary_name_def split: option.splits)
qed

theorem summary_item_substitution_witness:
  "finalItemDetails ''ORDER-1'' 100 (Some [nasi_item]) None =
     [\<lparr>detail_id = ''m1'', detail_price = 100, detail_quantity = 1, detail_name = ''Nasi''\<rparr>]
   \<and> finalItemDetails ''BATCH-1'' 250 (Some [nasi_item, nasi_item]) (Some [''A'', ''B'']) =
     [\<lparr>detail_id = ''BATCH-1'', detail_price = 250, detail_quantity = 1,
       detail_name = ''Batch Payment (2 orders)''\<rparr>]"
  using summary_item_substitution [of "[nasi_item]" "''ORDER-1''" 100 None]
    summary_item_substitution [of "[nasi_item, nasi_item]" "''BATCH-1''" 250 "Some [''A'', ''B'']"]
  by (simp add: nasi_item_def normalize_items_def normalize_item_def calculatedTotal_def
      Math_round_def or_else_def num_or_def string_of_nat.simps Let_def)

text \<open>
  The claim as stated compares with the rounded amount. For an amount of 100.25 and one
  item of price 100 the total equals the rounded amount, and the summary item is
  substituted all the same.
\<close>

theorem rounded_amount_counterexample:
  "calculatedTotal (normalize_items [nasi_item]) = Math_round (401 / 4)
   \<and> finalItemDetails ''ORDER-1'' (401 / 4) (Some [nasi_item]) None =
       [\<lparr>detail_id = ''ORDER-1'', detail_price = 100, detail_quantity = 1,
         detail_name = ''Payment''\<rparr>]
   \<and> normalize_items [nasi_item] =
       [\<lparr>detail_id = ''m1'', detail_price = 100, detail_quantity = 1, detail_name = ''Nasi''\<rparr>]"
  by (simp add: nasi_item_def finalItemDetails_def normalize_items_def normalize_item_def
      calculatedTotal_def summary_item_def summary_name_def Math_round_def or_else_def
      num_or_def Let_def)

section \<open>Facts about the client side\<close>

lemma effects_snap_pay [simp]:
  "effects (snd (snap_pay env t w)) = effects w @ (if snap_loaded env then [SnapPay t] else [])"
  by (simp add: snap_pay_def)

lemma stamp_orders_Cons:
  "stamp_orders env t b (y # os) w =
     stamp_orders env t b os
       (if db_error env (UpdateOrder (oid y) (batch_patch t b)) = None
        then snd (exec_db env (UpdateOrder (oid y) (batch_patch t b)) w)
        else console_error ''Error updating order:''
               (snd (exec_db env (UpdateOrder (oid y) (batch_patch t b)) w)))"
  by (simp add: exec_db_def split: option.splits)

lemma effects_stamp_orders [simp]:
  "effects (stamp_orders env t b os w) =
     effects w @ map (\<lambda>y. DbWrite (UpdateOrder (oid y) (batch_patch t b))) os"
  by (induction os arbitrary: w) (simp_all add: stamp_orders_Cons del: stamp_orders.simps(2))

lemma batch_orders_stamp_orders [simp]:
  "batch_orders (stamp_orders env t b os w) = batch_orders w"
  by (induction os arbitrary: w) (simp_all add: stamp_orders_Cons del: stamp_orders.simps(2))

lemma oids_stamp_orders [simp]:
  "map oid (orders (stamp_orders env t b os w)) = map oid (orders w)"
  by (induction os arbitrary: w) (simp_all add: stamp_orders_Cons del: stamp_orders.simps(2))

lemma apply_batch_patch [simp]:
  "snap_token (apply_patch (batch_patch t b) r) = Some t"
  "midtrans_order_id (apply_patch (batch_patch t b) r) = Some b"
  by (simp_all add: apply_patch_def batch_patch_def no_patch_def)

lemma stamped_update:
  "stamped t b i w \<Longrightarrow> stamped t b i (snd (exec_db env (UpdateOrder j (batch_patch t b)) w))"
  by (auto simp: stamped_def orders_exec_update list_all_iff)

lemma stamped_after_update:
  assumes "db_error env (UpdateOrder i (batch_patch t b)) = None"
  shows "stamped t b i (snd (exec_db env (UpdateOrder i (batch_patch t b)) w))"
proof -
  have step: "orders (snd (exec_db env (UpdateOrder i (batch_patch t b)) w)) =
          map (\<lambda>r. if oid r = i then apply_patch (batch_patch t b) r else r) (orders w)"
    by (simp only: orders_exec_update assms if_True simp_thms)
  show ?thesis
    unfolding stamped_def step list_all_iff
  proof (intro ballI)
    fix r
    assume "r \<in> set (map (\<lambda>r. if oid r = i then apply_patch (batch_patch t b) r else r) (orders w))"
    then obtain r0 where "r = (if oid r0 = i then apply_patch (batch_patch t b) r0 else r0)"
      by (auto simp only: set_map)
    then show "oid r \<noteq> i \<or> snap_token r = Some t \<and> midtrans_order_id r = Some b"
      by (cases "oid r0 = i") simp_all
  qed
qed

lemma stamped_console_error [simp]: "stamped t b i (console_error l w) = stamped t b i w"
  by (simp add: stamped_def)

lemma stamp_orders_keeps:
  "stamped t b i w \<Longrightarrow> stamped t b i (stamp_orders env t b os w)"
  by (induction os arbitrary: w)
     (simp_all add: stamp_orders_Cons stamped_update del: stamp_orders.simps(2))

lemma stamp_orders_stamps:
  assumes "x \<in> set os" and "db_error env (UpdateOrder (oid x) (batch_patch t b)) = None"
  shows "stamped t b (oid x) (stamp_orders env t b os w)"
  using assms
proof (induction os arbitrary: w)
  case Nil
  then show ?case by simp
next
  case (Cons y os)
  show ?case
  proof (cases "y = x")
    case True
    have "stamped t b (oid x) (snd (exec_db env (UpdateOrder (oid x) (batch_patch t b)) w))"
      using Cons.prems(2) by (rule stamped_after_update)
    then show ?thesis
      using True Cons.prems(2)
      by (simp add: stamp_orders_Cons stamp_orders_keeps del: stamp_orders.simps(2))
  next
    case False
    then have "x \<in> set os" using Cons.prems(1) by simp
    then show ?thesis
      using Cons.IH Cons.prems(2) by (simp add: stamp_orders_Cons del: stamp_orders.simps(2))
  qed
qed

lemma foldl_sum_total:
  "foldl (\<lambda>sum order. sum + total_amount order) acc xs = acc + sum_list (map total_amount xs)"
  by (induction xs arbitrary: acc) simp_all

lemma invocations_effects:
  "effects w' = effects w @ es \<Longrightarrow> invocations w' = invocations w @ concat (map invoke_of es)"
  by (simp add: invocations_def)

lemma db_writes_effects:
  "effects w' = effects w @ es \<Longrightarrow> db_writes w' = db_writes w @ concat (map write_of es)"
  by (simp add: db_writes_def)

lemma effects_create_payment:
  "\<exists>es. effects (snd (create_payment env req w)) = effects w @ es
        \<and> concat (map invoke_of es) = []"
proof (cases "\<exists>oi a. orderId req = Some oi \<and> oi \<noteq> [] \<and> amount req = Some a \<and> 0 < a
                 \<and> truthy (MIDTRANS_SERVER_KEY env)")
  case True
  then obtain oi a where v: "orderId req = Some oi" "oi \<noteq> []" "amount req = Some a" "0 < a"
      "truthy (MIDTRANS_SERVER_KEY env)" by blast
  show ?thesis
    by (auto simp: create_payment_valid [OF v] effects_save_batch_mapping
        split: option.splits)
next
  case False
  then have "effects (snd (create_payment env req w)) = effects w"
    by (cases "orderId req"; cases "amount req") (auto simp: create_payment_def not_le)
  then show ?thesis by simp
qed

lemma effects_serve:
  "\<exists>es. effects (snd (serve env m req w)) = effects w @ es \<and> concat (map invoke_of es) = []"
proof -
  obtain es where "effects (snd (create_payment env req w)) = effects w @ es"
      "concat (map invoke_of es) = []"
    using effects_create_payment by blast
  then show ?thesis
    by (simp add: serve_def split_beta split: sum.splits)
qed

lemma invocations_functions_invoke [simp]:
  "invocations (snd (functions_invoke env req w)) = invocations w @ [req]"
proof -
  obtain es where "effects (snd (serve env POST req (emit (FunctionInvoke req) w))) =
      effects (emit (FunctionInvoke req) w) @ es" "concat (map invoke_of es) = []"
    using effects_serve by blast
  then show ?thesis
    by (simp add: snd_functions_invoke invocations_def)
qed

lemma invocations_simps [simp]:
  "invocations (console_error l w) = invocations w"
  "invocations (toast a b c w) = invocations w"
  "invocations (snd (snap_pay env t w)) = invocations w"
  "invocations (stamp_orders env t bid os w) = invocations w"
  "invocations (snd (exec_db env op w)) = invocations w"
  by (simp_all add: invocations_def comp_def)

lemma invocations_batch_try:
  "invocations (snd (batch_try env bid os w)) = invocations w @ [batch_request env bid os]"
  by (simp add: batch_try_def split_beta split: invoke_reply.splits option.splits)

lemma stamped_orders_cong: "orders w' = orders w \<Longrightarrow> stamped t b i w' = stamped t b i w"
  by (simp add: stamped_def)

lemma stampedD:
  "stamped t b i w \<Longrightarrow> r \<in> set (orders w) \<Longrightarrow> oid r = i \<Longrightarrow>
     snap_token r = Some t \<and> midtrans_order_id r = Some b"
  by (auto simp: stamped_def list_all_iff)

lemmas batch_defs =
  processBatchPayment_def batch_try_def batch_request_def batch_customerDetails_def
  batch_itemDetails_def batch_patch_def

lemmas run_defs =
  functions_invoke_def no_patch_def snap_pay_def toast_def apply_patch_def
  serve_def create_payment_def save_batch_mapping_def call_midtrans_def exec_db_def
  emit_def console_error_def midtransPayload_def finalItemDetails_def finalCustomerDetails_def
  defaultCustomerDetails_def summary_item_def summary_name_def normalize_items_def
  normalize_item_def calculatedTotal_def truthy_def or_else_def num_or_def Math_round_def
  Let_def

lemmas fixture_defs =
  example_env_def empty_world_def order_A_def order_B_def order_C_def order_D_def
  four_orders_world_def

lemma effects_functions_invoke:
  "\<exists>es. effects (snd (functions_invoke env req w)) = effects w @ FunctionInvoke req # es
        \<and> concat (map invoke_of es) = []"
proof -
  obtain es where "effects (snd (serve env POST req (emit (FunctionInvoke req) w))) =
      effects (emit (FunctionInvoke req) w) @ es" "concat (map invoke_of es) = []"
    using effects_serve by blast
  then show ?thesis
    by (simp add: snd_functions_invoke)
qed

lemma effects_retry_fresh_token:
  "\<exists>rest. effects (snd (retry_fresh_token env i order w)) =
            effects w @ FunctionInvoke (retry_request env i order) # rest
        \<and> concat (map invoke_of rest) = []"
proof -
  obtain es where es: "effects (snd (functions_invoke env (retry_request env i order) w)) =
      effects w @ FunctionInvoke (retry_request env i order) # es" "concat (map invoke_of es) = []"
    using effects_functions_invoke by blast
  show ?thesis
    using es(2)
    by (auto simp: retry_fresh_token_def split_beta es(1)
        split: invoke_reply.splits option.splits)
qed

lemmas retry_defs =
  retryPayment_def retry_try_def retry_fresh_token_def retry_request_def

lemma orders_exec_insert_order:
  "orders (snd (exec_db env (InsertOrder r) w)) =
     orders w @ (if db_error env (InsertOrder r) = None then [r] else [])"
  by (simp add: exec_db_def split: option.splits)

lemma orders_exec_delete:
  "orders (snd (exec_db env (DeleteOrder i) w)) =
     (if db_error env (DeleteOrder i) = None then filter (\<lambda>r. oid r \<noteq> i) (orders w)
      else orders w)"
  by (simp add: exec_db_def split: option.splits)

lemma line_items_exec_other [simp]:
  "order_line_item_rows (snd (exec_db env (InsertOrder r) w)) = order_line_item_rows w"
  "order_line_item_rows (snd (exec_db env (DeleteOrder i) w)) = order_line_item_rows w"
  "order_line_item_rows (emit e w) = order_line_item_rows w"
  "order_line_item_rows (console_error l w) = order_line_item_rows w"
  "order_line_item_rows (toast a b c w) = order_line_item_rows w"
  by (simp_all add: exec_db_def emit_def console_error_def toast_def split: option.splits)

lemmas checkout_defs =
  handleCheckout_def checkout_try_def checkout_pay_def checkout_request_def childIdToUse_def
  selectedChild_def new_order_def orderLineItems_def

lemmas checkout_fixture_defs =
  example_cart_def example_state_def example_fresh_def line_items_fail_env_def
  delete_fails_too_env_def example_new_order_def

lemma handlePayment_rejects:
  assumes "received = None \<or> (\<exists>x. received = Some x \<and> x < total_amount order)"
  shows "handlePayment env transactionId (Some order) received w =
           w\<lparr>effects := effects w @
              [Toast ''Error'' ''Jumlah uang yang diterima kurang dari total pembayaran''
                 Destructive]\<rparr>"
  using assms
  by (auto simp: handlePayment_def isValidPayment_def toast_def emit_def)

lemma handlePayment_settles:
  assumes "received = Some x" "total_amount order \<le> x"
      and "db_error env
             (UpdateOrder (oid order)
                (no_patch\<lparr>set_payment_status := Some ''paid'',
                          set_status := Some ''confirmed''\<rparr>)) = None"
      and "db_error env
             (InsertPayment
                \<lparr>pay_order_id = oid order, pay_amount = total_amount order,
                 pay_method = ''cash'', pay_status = ''success'',
                 pay_transaction_id = transactionId\<rparr>) = None"
  shows "payments (handlePayment env transactionId (Some order) received w) =
           payments w @
             [\<lparr>pay_order_id = oid order, pay_amount = total_amount order,
               pay_method = ''cash'', pay_status = ''success'',
               pay_transaction_id = transactionId\<rparr>]
         \<and> orders (handlePayment env transactionId (Some order) received w) =
             map (\<lambda>row. if oid row = oid order
                         then row\<lparr>payment_status := ''paid'', status := ''confirmed''\<rparr>
                         else row) (orders w)
         \<and> cash_payments (handlePayment env transactionId (Some order) received w) =
             cash_payments w"
  using assms
  by (simp add: handlePayment_def isValidPayment_def exec_db_ok toast_def emit_def
      apply_patch_def no_patch_def)

lemma processPayment_rejects:
  assumes "r < total_amount order"
  shows "snd (processPayment env formatPrice (setReceivedAmount r (handleViewDetail order st0)) w) =
           w\<lparr>effects := effects w @
              [Toast ''Error'' ''Jumlah uang yang diterima kurang dari total pembayaran''
                 Destructive]\<rparr>"
  using assms
  by (simp add: processPayment_def setReceivedAmount_def handleViewDetail_def toast_def emit_def)

lemma processPayment_settles:
  assumes "total_amount order \<le> r"
      and "db_error env
             (InsertCashPayment
                \<lparr>cash_order_id = oid order, cash_amount = total_amount order,
                 received_amount = r, change_amount = r - total_amount order,
                 cashier_id = (case auth_user env of None \<Rightarrow> [] | Some u \<Rightarrow> user_id u),
                 cash_notes = []\<rparr>) = None"
      and "db_error env
             (UpdateOrder (oid order)
                (no_patch\<lparr>set_payment_status := Some ''paid'',
                          set_payment_method := Some ''cash''\<rparr>)) = None"
  shows "cash_payments (snd (processPayment env formatPrice
             (setReceivedAmount r (handleViewDetail order st0)) w)) =
           cash_payments w @
             [\<lparr>cash_order_id = oid order, cash_amount = total_amount order,
               received_amount = r, change_amount = r - total_amount order,
               cashier_id = (case auth_user env of None \<Rightarrow> [] | Some u \<Rightarrow> user_id u),
               cash_notes = []\<rparr>]
         \<and> payments (snd (processPayment env formatPrice
             (setReceivedAmount r (handleViewDetail order st0)) w)) = payments w
         \<and> orders (snd (processPayment env formatPrice
             (setReceivedAmount r (handleViewDetail order st0)) w)) =
             map (\<lambda>row. if oid row = oid order
                         then apply_patch (no_patch\<lparr>set_payment_status := Some ''paid'',
                                 set_payment_method := Some ''cash''\<rparr>) row
                         else row) (orders w)"
  using assms
  by (simp add: processPayment_def setReceivedAmount_def handleViewDetail_def exec_db_ok
      toast_def emit_def not_less)

lemmas cash_defs =
  handlePayment_def isValidPayment_def changeAmount_def processPayment_def
  setReceivedAmount_def handleViewDetail_def

section \<open>Claims about the Batch Payment Aggregator\<close>

text \<open>
  Claim C7, as amended. The aggregator keeps exactly the candidates whose
  \<^verbatim>\<open>payment_status\<close> is "pending". An empty selection is answered with an error
  message, a non-empty selection without a pending order with an informational one; in
  both cases that message is the only effect. Otherwise the Gateway Transaction Function
  is invoked exactly once, with the batch id, the sum of the pending orders'
  \<^verbatim>\<open>total_amount\<close> as amount and their ids as \<^verbatim>\<open>batchOrderIds\<close>.
\<close>

theorem batch_payment_aggregation:
  "(let pendingOrders = filter (\<lambda>order. payment_status order = ''pending'') orders_in;
        w' = processBatchPayment env batchOrderId orders_in w
    in (orders_in = [] \<longrightarrow>
          w' = w\<lparr>effects := effects w @
                 [Toast ''Error'' ''Tidak ada pesanan yang dipilih untuk dibayar'' Destructive]\<rparr>)
     \<and> (orders_in \<noteq> [] \<and> pendingOrders = [] \<longrightarrow>
          w' = w\<lparr>effects := effects w @
                 [Toast ''Info'' ''Tidak ada pesanan yang perlu dibayar'' Default]\<rparr>)
     \<and> (pendingOrders \<noteq> [] \<longrightarrow>
          invocations w' = invocations w @
            [\<lparr>orderId = Some batchOrderId,
              amount = Some (sum_list (map total_amount pendingOrders)),
              customerDetails = Some (batch_customerDetails (auth_user env)),
              itemDetails = Some (batch_itemDetails pendingOrders),
              batchOrderIds = Some (map oid pendingOrders)\<rparr>]))"
proof -
  have "invocations (processBatchPayment env batchOrderId orders_in w) =
          invocations w @
            [batch_request env batchOrderId
               (filter (\<lambda>order. payment_status order = ''pending'') orders_in)]"
    if "filter (\<lambda>order. payment_status order = ''pending'') orders_in \<noteq> []"
    using that
    by (auto simp: processBatchPayment_def Let_def split_beta invocations_batch_try
        split: option.splits)
  then show ?thesis
    by (auto simp: Let_def processBatchPayment_def toast_def emit_def batch_request_def
        foldl_sum_total)
qed

theorem batch_payment_aggregation_witness:
  "invocations (processBatchPayment example_env ''BATCH-1''
      [order_A, order_B, order_C, order_D] four_orders_world) =
     [\<lparr>orderId = Some ''BATCH-1'', amount = Some 60000,
       customerDetails = Some (batch_customerDetails (auth_user example_env)),
       itemDetails = Some (batch_itemDetails [order_A, order_B, order_C]),
       batchOrderIds = Some [''A'', ''B'', ''C'']\<rparr>]
   \<and> map td_gross_amount (gateway_calls (processBatchPayment example_env ''BATCH-1''
        [order_A, order_B, order_C, order_D] four_orders_world)) = [60000]
   \<and> processBatchPayment example_env ''BATCH-1'' [] four_orders_world =
       four_orders_world\<lparr>effects :=
         [Toast ''Error'' ''Tidak ada pesanan yang dipilih untuk dibayar'' Destructive]\<rparr>
   \<and> processBatchPayment example_env ''BATCH-1'' [order_D] four_orders_world =
       four_orders_world\<lparr>effects :=
         [Toast ''Info'' ''Tidak ada pesanan yang perlu dibayar'' Default]\<rparr>"
  using batch_payment_aggregation [of "[order_A, order_B, order_C, order_D]" example_env
      "''BATCH-1''" four_orders_world]
    batch_payment_aggregation [of "[order_D]" example_env "''BATCH-1''" four_orders_world]
    batch_payment_aggregation [of "[]" example_env "''BATCH-1''" four_orders_world]
  by (simp add: batch_defs run_defs fixture_defs invocations_def gateway_calls_def)

text \<open>
  The claim as stated calls every run without a pending candidate informational. An empty
  selection is reported as an error.
\<close>

theorem empty_selection_counterexample:
  "effects (processBatchPayment example_env ''BATCH-1'' [] empty_world) =
     [Toast ''Error'' ''Tidak ada pesanan yang dipilih untuk dibayar'' Destructive]"
  by (simp add: processBatchPayment_def empty_world_def)

text \<open>
  Claim C3, as amended. After a batch call that returned a token, every pending order
  whose update did not fail carries the token and the batch id; an update is attempted
  for every pending order, in order, whatever happened to the ones before it; the stored
  orders are the same rows as before. When the store is configured for the function, one
  \<^verbatim>\<open>batch_orders\<close> row per pending order points at the batch id; when it is not, no
  row is written.
\<close>

theorem batch_fan_out:
  assumes pend: "pendingOrders = filter (\<lambda>order. payment_status order = ''pending'') orders_in"
      and ne: "pendingOrders \<noteq> []"
      and ok: "fst (functions_invoke env (batch_request env batchOrderId pendingOrders) w) =
                 InvokeData (Some t) u"
      and tok: "t \<noteq> []"
  shows
   "(let w' = processBatchPayment env batchOrderId orders_in w;
         configured = truthy (SUPABASE_URL env) \<and> truthy (SUPABASE_SERVICE_ROLE_KEY env);
         rows = map (\<lambda>x. \<lparr>batch_id = batchOrderId, batch_order_id = oid x\<rparr>) pendingOrders
     in (\<forall>x \<in> set pendingOrders.
           db_error env (UpdateOrder (oid x) (batch_patch t batchOrderId)) = None \<longrightarrow>
           (\<forall>r \<in> set (orders w'). oid r = oid x \<longrightarrow>
              snap_token r = Some t \<and> midtrans_order_id r = Some batchOrderId))
      \<and> map oid (orders w') = map oid (orders w)
      \<and> db_writes w' =
           db_writes w @ (if configured then [InsertBatchOrders rows] else []) @
             map (\<lambda>x. UpdateOrder (oid x) (batch_patch t batchOrderId)) pendingOrders
      \<and> batch_orders w' = batch_orders w @ (if configured then rows else []))"
proof -
  define req where "req = batch_request env batchOrderId pendingOrders"
  define w0 where "w0 = emit (FunctionInvoke req) w"
  define w1 where "w1 = snd (functions_invoke env req w)"
  define w2 where "w2 = stamp_orders env t batchOrderId pendingOrders w1"
  define w' where "w' = processBatchPayment env batchOrderId orders_in w"
  have req_fields: "orderId req = Some batchOrderId"
      "batchOrderIds req = Some (map oid pendingOrders)"
    by (simp_all add: req_def batch_request_def)
  have bt: "batch_try env batchOrderId pendingOrders w = snap_pay env t w2"
    using ok tok by (simp add: batch_try_def split_beta w2_def w1_def req_def)
  have oi_ne: "orders_in \<noteq> []"
    using ne pend by auto
  have w'_eq: "w' = (if snap_loaded env then emit (SnapPay t) w2
                    else toast ''Error'' ''Midtrans Snap belum loaded'' Destructive
                           (console_error ''Batch payment error:'' w2))"
    unfolding w'_def processBatchPayment_def Let_def pend [symmetric]
    using ne oi_ne by (simp add: bt snap_pay_def)
  have orders_w': "orders w' = orders w2" and batch_w': "batch_orders w' = batch_orders w1"
    and effects_w': "effects w' = effects w1
        @ map (\<lambda>y. DbWrite (UpdateOrder (oid y) (batch_patch t batchOrderId))) pendingOrders
        @ (if snap_loaded env then [SnapPay t]
           else [Toast ''Error'' ''Midtrans Snap belum loaded'' Destructive])"
    by (simp_all add: w'_eq w2_def)
  from ok have "fst (serve env POST req w0) = Ok200 (Some t) u"
    by (simp add: fst_functions_invoke_data req_def w0_def)
  from serve_Ok200 [OF this] req_fields obtain a where
      sb: "fst (save_batch_mapping env batchOrderId (Some (map oid pendingOrders)) w0) = None"
      and w1_eq: "w1 = emit (GatewayCall (midtransPayload batchOrderId a req))
                        (snd (save_batch_mapping env batchOrderId
                                (Some (map oid pendingOrders)) w0))"
    by (auto simp: w1_def snd_functions_invoke w0_def)
  have batch_w1: "batch_orders w1 = batch_orders w @
       (if truthy (SUPABASE_URL env) \<and> truthy (SUPABASE_SERVICE_ROLE_KEY env)
        then map (\<lambda>x. \<lparr>batch_id = batchOrderId, batch_order_id = oid x\<rparr>) pendingOrders
        else [])"
    using batch_orders_save_batch_mapping [OF sb]
    by (simp add: w1_eq w0_def comp_def)
  have effects_w1: "effects w1 = effects w @ [FunctionInvoke req] @
       (if truthy (SUPABASE_URL env) \<and> truthy (SUPABASE_SERVICE_ROLE_KEY env)
        then [DbWrite (InsertBatchOrders
                (map (\<lambda>x. \<lparr>batch_id = batchOrderId, batch_order_id = oid x\<rparr>) pendingOrders))]
        else []) @ [GatewayCall (midtransPayload batchOrderId a req)]"
    using ne by (simp add: w1_eq effects_save_batch_mapping w0_def comp_def)
  have writes: "db_writes w' =
           db_writes w @
             (if truthy (SUPABASE_URL env) \<and> truthy (SUPABASE_SERVICE_ROLE_KEY env)
              then [InsertBatchOrders
                (map (\<lambda>x. \<lparr>batch_id = batchOrderId, batch_order_id = oid x\<rparr>) pendingOrders)]
              else []) @
             map (\<lambda>x. UpdateOrder (oid x) (batch_patch t batchOrderId)) pendingOrders"
    by (simp add: db_writes_def effects_w' effects_w1 comp_def)
  have ids: "map oid (orders w') = map oid (orders w)"
    by (simp add: orders_w' w2_def w1_def)
  have fan: "snap_token r = Some t \<and> midtrans_order_id r = Some batchOrderId"
    if "x \<in> set pendingOrders"
      and "db_error env (UpdateOrder (oid x) (batch_patch t batchOrderId)) = None"
      and "r \<in> set (orders w')" and "oid r = oid x" for x r
  proof -
    have "stamped t batchOrderId (oid x) w2"
      unfolding w2_def using that(1,2) by (rule stamp_orders_stamps)
    then have "stamped t batchOrderId (oid x) w'"
      by (simp add: stamped_orders_cong [OF orders_w'])
    then show ?thesis using that(3,4) by (rule stampedD)
  qed
  show ?thesis
    unfolding Let_def w'_def [symmetric]
    using fan ids writes batch_w' batch_w1 by simp
qed

theorem batch_fan_out_witness:
  "map (\<lambda>r. (oid r, snap_token r, midtrans_order_id r))
     (orders (processBatchPayment update_B_fails_env ''BATCH-1''
                [order_A, order_B, order_C, order_D] four_orders_world)) =
     [(''A'', Some ''snap-token-1'', Some ''BATCH-1''), (''B'', None, None),
      (''C'', Some ''snap-token-1'', Some ''BATCH-1''), (''D'', None, None)]
   \<and> batch_orders (processBatchPayment update_B_fails_env ''BATCH-1''
                [order_A, order_B, order_C, order_D] four_orders_world) =
     [\<lparr>batch_id = ''BATCH-1'', batch_order_id = ''A''\<rparr>,
      \<lparr>batch_id = ''BATCH-1'', batch_order_id = ''B''\<rparr>,
      \<lparr>batch_id = ''BATCH-1'', batch_order_id = ''C''\<rparr>]"
  using batch_fan_out [of "[order_A, order_B, order_C]" "[order_A, order_B, order_C, order_D]"
      update_B_fails_env "''BATCH-1''" four_orders_world "''snap-token-1''"
      "Some ''https://pay.example/1''"]
  by (simp add: batch_defs run_defs fixture_defs update_B_fails_env_def)

text \<open>
  The claim as stated promises the \<^verbatim>\<open>batch_orders\<close> rows after every successful
  batch call. Without the store's configuration the call succeeds, the three orders are
  stamped, and no row exists.
\<close>

theorem batch_without_store_counterexample:
  "map (\<lambda>r. (oid r, snap_token r, midtrans_order_id r))
     (orders (processBatchPayment unconfigured_env ''BATCH-1''
                [order_A, order_B, order_C] four_orders_world)) =
     [(''A'', Some ''snap-token-1'', Some ''BATCH-1''),
      (''B'', Some ''snap-token-1'', Some ''BATCH-1''),
      (''C'', Some ''snap-token-1'', Some ''BATCH-1''), (''D'', None, None)]
   \<and> batch_orders (processBatchPayment unconfigured_env ''BATCH-1''
                [order_A, order_B, order_C] four_orders_world) = []"
  by (simp add: batch_defs run_defs fixture_defs unconfigured_env_def)

section \<open>Claims about the retry path\<close>

text \<open>
  Claim C4, as amended. For an order whose cached \<^verbatim>\<open>snap_token\<close> is a non-empty
  string, retrying opens the payment widget with that token when the widget's script is
  loaded and reports an error otherwise; in both cases nothing else happens: the
  Gateway Transaction Function is not invoked and nothing is written. When the token is
  null or empty, the function is invoked with the order's \<^verbatim>\<open>midtrans_order_id\<close>; if
  the order has none, a new id is written to the order first, and the function is invoked
  only if that write succeeds. (\<open>concat (map invoke_of rest) = []\<close> says that
  \<open>rest\<close> holds no further invocation.)
\<close>

theorem retry_reuses_cached_token:
  "(let w' = retryPayment env newOrderId order w;
        persist = UpdateOrder (oid order) (no_patch\<lparr>set_midtrans_order_id := Some newOrderId\<rparr>)
    in (\<forall>t. snap_token order = Some t \<and> t \<noteq> [] \<longrightarrow>
          w' = (if snap_loaded env then w\<lparr>effects := effects w @ [SnapPay t]\<rparr>
                else w\<lparr>effects := effects w @
                         [Toast ''Error'' ''Midtrans Snap belum loaded'' Destructive],
                       console := console w @ [''Retry payment error:'']\<rparr>))
     \<and> (\<not> truthy (snap_token order) \<longrightarrow>
          (\<forall>i. midtrans_order_id order = Some i \<and> i \<noteq> [] \<longrightarrow>
             (\<exists>rest. effects w' = effects w @ FunctionInvoke (retry_request env i order) # rest
                  \<and> concat (map invoke_of rest) = []))
        \<and> (\<not> truthy (midtrans_order_id order) \<longrightarrow>
             (case db_error env persist of
                None \<Rightarrow>
                  (\<exists>rest. effects w' =
                       effects w @ DbWrite persist
                         # FunctionInvoke (retry_request env newOrderId order) # rest
                     \<and> concat (map invoke_of rest) = [])
              | Some msg \<Rightarrow>
                  effects w' =
                    effects w @
                      [DbWrite persist,
                       Toast ''Error'' (if msg = [] then ''Gagal memproses pembayaran'' else msg)
                         Destructive]))))"
proof -
  have cached: "retryPayment env newOrderId order w =
          (if snap_loaded env then w\<lparr>effects := effects w @ [SnapPay t]\<rparr>
           else w\<lparr>effects := effects w @
                    [Toast ''Error'' ''Midtrans Snap belum loaded'' Destructive],
                  console := console w @ [''Retry payment error:'']\<rparr>)"
    if "snap_token order = Some t" "t \<noteq> []" for t
    using that
    by (simp add: retryPayment_def retry_try_def truthy_def snap_pay_def toast_def emit_def
        console_error_def)
  have known: "\<exists>rest. effects (retryPayment env newOrderId order w) =
                  effects w @ FunctionInvoke (retry_request env i order) # rest
                \<and> concat (map invoke_of rest) = []"
    if "\<not> truthy (snap_token order)" "midtrans_order_id order = Some i" "i \<noteq> []" for i
  proof -
    obtain rest where "effects (snd (retry_fresh_token env i order w)) =
            effects w @ FunctionInvoke (retry_request env i order) # rest"
        "concat (map invoke_of rest) = []"
      using effects_retry_fresh_token by blast
    then show ?thesis
      using that
      by (simp add: retryPayment_def retry_try_def truthy_def split_beta split: option.splits)
  qed
  have fresh_ok: "\<exists>rest. effects (retryPayment env newOrderId order w) =
                  effects w @ DbWrite (UpdateOrder (oid order) (no_patch\<lparr>set_midtrans_order_id := Some newOrderId\<rparr>))
                    # FunctionInvoke (retry_request env newOrderId order) # rest
                \<and> concat (map invoke_of rest) = []"
    if "\<not> truthy (snap_token order)" "\<not> truthy (midtrans_order_id order)"
      "db_error env (UpdateOrder (oid order) (no_patch\<lparr>set_midtrans_order_id := Some newOrderId\<rparr>)) = None"
  proof -
    obtain rest where "effects (snd (retry_fresh_token env newOrderId order
         (snd (exec_db env (UpdateOrder (oid order) (no_patch\<lparr>set_midtrans_order_id := Some newOrderId\<rparr>)) w)))) =
            effects (snd (exec_db env (UpdateOrder (oid order) (no_patch\<lparr>set_midtrans_order_id := Some newOrderId\<rparr>)) w))
              @ FunctionInvoke (retry_request env newOrderId order) # rest"
        "concat (map invoke_of rest) = []"
      using effects_retry_fresh_token by blast
    then show ?thesis
      using that
      by (simp add: retryPayment_def retry_try_def split_beta split: option.splits)
  qed
  have fresh_failed: "effects (retryPayment env newOrderId order w) =
                    effects w @
                      [DbWrite (UpdateOrder (oid order) (no_patch\<lparr>set_midtrans_order_id := Some newOrderId\<rparr>)),
                       Toast ''Error'' (if msg = [] then ''Gagal memproses pembayaran'' else msg)
                         Destructive]"
    if "\<not> truthy (snap_token order)" "\<not> truthy (midtrans_order_id order)"
      "db_error env (UpdateOrder (oid order) (no_patch\<lparr>set_midtrans_order_id := Some newOrderId\<rparr>)) = Some msg"
    for msg
    using that
    by (simp add: retryPayment_def retry_try_def split_beta)
  show ?thesis
    unfolding Let_def
    using cached known fresh_ok fresh_failed
    by (simp split: option.splits)
qed

theorem retry_reuses_cached_token_witness:
  "retryPayment example_env ''ORDER-NEW'' cached_order four_orders_world =
     four_orders_world\<lparr>effects := [SnapPay ''cached-token'']\<rparr>
   \<and> take 2 (effects (retryPayment example_env ''ORDER-NEW'' order_A four_orders_world)) =
       [DbWrite (UpdateOrder ''A'' (no_patch\<lparr>set_midtrans_order_id := Some ''ORDER-NEW''\<rparr>)),
        FunctionInvoke (retry_request example_env ''ORDER-NEW'' order_A)]
   \<and> invocations (retryPayment example_env ''ORDER-NEW'' order_A four_orders_world) =
       [retry_request example_env ''ORDER-NEW'' order_A]"
  using retry_reuses_cached_token [of example_env "''ORDER-NEW''" cached_order four_orders_world]
    retry_reuses_cached_token [of example_env "''ORDER-NEW''" order_A four_orders_world]
  by (simp add: retry_defs run_defs fixture_defs cached_order_def invocations_def)

text \<open>
  The claim as stated has every order with a non-null token open the widget, and a
  fresh token requested only for a null one. With a cached token and the widget's
  script not loaded, no widget opens; with the empty string as token, which is not
  null, the function is invoked.
\<close>

theorem retry_without_widget_counterexample:
  "effects (retryPayment widget_missing_env ''ORDER-NEW'' cached_order four_orders_world) =
     [Toast ''Error'' ''Midtrans Snap belum loaded'' Destructive]
   \<and> invocations (retryPayment example_env ''ORDER-NEW'' (order_A\<lparr>snap_token := Some []\<rparr>)
        four_orders_world) =
       [retry_request example_env ''ORDER-NEW'' (order_A\<lparr>snap_token := Some []\<rparr>)]"
  by (simp add: retry_defs run_defs fixture_defs cached_order_def widget_missing_env_def
      invocations_def)

section \<open>Claims about the Checkout Aggregator\<close>

text \<open>
  Claim C8, as amended. When the order row has been created and the insertion of its
  line items fails, the aggregator issues a deletion of the order it just created, then
  fails the checkout with an error; nothing is sent to the Gateway Transaction Function
  and no line item is stored. The result of the deletion is not inspected: when it
  succeeds the store holds no order with the new id, and when it fails the order
  remains.
\<close>

theorem checkout_rollback:
  assumes "auth_user env = Some u" and "cartItems \<noteq> []"
      and "childIdToUse st cartItems = Some cid" and "cid \<noteq> []"
      and "selectedChild st cartItems cid = Some ch"
      and "orderData =
             new_order u st fr ch
               (foldl (\<lambda>sum it. sum + cart_price it * cart_quantity it) 0 cartItems)"
      and "db_error env (InsertOrder orderData) = None"
      and "db_error env (InsertLineItems (orderLineItems fr orderData cid ch cartItems)) = Some msg"
  shows
   "(let r = handleCheckout env st fr cartItems w
     in fst r = Thrown ''Gagal menyimpan detail pesanan''
      \<and> effects (snd r) =
          effects w @
            [DbWrite (InsertOrder orderData),
             DbWrite (InsertLineItems (orderLineItems fr orderData cid ch cartItems)),
             DbWrite (DeleteOrder (oid orderData)),
             Toast ''Error'' ''Gagal menyimpan detail pesanan'' Destructive]
      \<and> order_line_item_rows (snd r) = order_line_item_rows w
      \<and> orders (snd r) =
          (if db_error env (DeleteOrder (oid orderData)) = None
           then filter (\<lambda>row. oid row \<noteq> oid orderData) (orders w)
           else orders w @ [orderData]))"
proof -
  have tried: "checkout_try env u st fr cid cartItems w =
      (Thrown ''Gagal menyimpan detail pesanan'',
       snd (exec_db env (DeleteOrder (oid orderData))
              (console_error ''Error creating order line items:''
                 (emit (DbWrite (InsertLineItems (orderLineItems fr orderData cid ch cartItems)))
                    (apply_db (InsertOrder orderData) (emit (DbWrite (InsertOrder orderData)) w))))))"
    using assms(5,7,8) unfolding assms(6)
    by (simp add: checkout_try_def Let_def exec_db_ok exec_db_failed)
  have hc: "handleCheckout env st fr cartItems w =
      (Thrown ''Gagal menyimpan detail pesanan'',
       toast ''Error'' ''Gagal menyimpan detail pesanan'' Destructive
         (console_error ''Checkout error:''
            (snd (exec_db env (DeleteOrder (oid orderData))
              (console_error ''Error creating order line items:''
                 (emit (DbWrite (InsertLineItems (orderLineItems fr orderData cid ch cartItems)))
                    (apply_db (InsertOrder orderData) (emit (DbWrite (InsertOrder orderData)) w))))))))"
    using assms(1-4) by (simp add: handleCheckout_def tried)
  show ?thesis
    unfolding Let_def hc
    by (simp add: orders_exec_delete)
qed

theorem checkout_rollback_witness:
  "fst (handleCheckout line_items_fail_env example_state example_fresh example_cart
          four_orders_world) = Thrown ''Gagal menyimpan detail pesanan''
   \<and> orders (snd (handleCheckout line_items_fail_env example_state example_fresh example_cart
          four_orders_world)) = [order_A, order_B, order_C, order_D]
   \<and> order_line_item_rows (snd (handleCheckout line_items_fail_env example_state example_fresh
          example_cart four_orders_world)) = []
   \<and> invocations (snd (handleCheckout line_items_fail_env example_state example_fresh
          example_cart four_orders_world)) = []
   \<and> db_writes (snd (handleCheckout line_items_fail_env example_state example_fresh
          example_cart four_orders_world)) ! 0 = InsertOrder example_new_order
   \<and> db_writes (snd (handleCheckout line_items_fail_env example_state example_fresh
          example_cart four_orders_world)) ! 2 = DeleteOrder ''N1''"
  using checkout_rollback [of line_items_fail_env
      "\<lparr>user_id = ''u1'', user_email = Some ''ibu@example.com'',
        user_full_name = Some ''Ibu Sari'', user_phone = None\<rparr>"
      example_cart example_state "''c1''"
      "\<lparr>child_id = ''c1'', name = ''Budi'', class_name = ''1A''\<rparr>"
      example_new_order example_fresh "''violates row-level security''" four_orders_world]
  by (simp add: checkout_defs checkout_fixture_defs run_defs fixture_defs invocations_def
      db_writes_def)

text \<open>
  The claim as stated promises that no order without line items is left. When the
  store refuses the deletion as it refused the line items, the order stays.
\<close>

theorem orphaned_order_counterexample:
  "fst (handleCheckout delete_fails_too_env example_state example_fresh example_cart
          empty_world) = Thrown ''Gagal menyimpan detail pesanan''
   \<and> orders (snd (handleCheckout delete_fails_too_env example_state example_fresh example_cart
          empty_world)) = [example_new_order]
   \<and> order_line_item_rows (snd (handleCheckout delete_fails_too_env example_state
          example_fresh example_cart empty_world)) = []"
  by (simp add: checkout_defs checkout_fixture_defs run_defs fixture_defs)

section \<open>Claims about cash settlement\<close>

text \<open>
  Claim C9, as amended. On both cashier screens an amount received below the order's
  \<^verbatim>\<open>total_amount\<close> is rejected with a message and nothing else: no row is written
  and the order is unchanged. With an amount that covers the total and no failing write,
  \<^verbatim>\<open>handlePayment\<close> marks the order paid and confirmed and inserts a
  \<^verbatim>\<open>payments\<close> row with method cash and the total as amount, the change (received
  minus total) being computed for display only; \<^verbatim>\<open>processPayment\<close> inserts a
  \<^verbatim>\<open>cash_payments\<close> row whose change is received minus total and marks the order
  paid with payment method cash.
\<close>

theorem cash_settlement:
  "(let reject = Toast ''Error'' ''Jumlah uang yang diterima kurang dari total pembayaran''
                   Destructive;
        w1 = handlePayment env transactionId (Some order) received w;
        w2 = snd (processPayment env formatPrice
                    (setReceivedAmount r (handleViewDetail order st0)) w);
        payment = \<lparr>pay_order_id = oid order, pay_amount = total_amount order,
                   pay_method = ''cash'', pay_status = ''success'',
                   pay_transaction_id = transactionId\<rparr>;
        cash = \<lparr>cash_order_id = oid order, cash_amount = total_amount order,
                received_amount = r, change_amount = r - total_amount order,
                cashier_id = (case auth_user env of None \<Rightarrow> [] | Some u \<Rightarrow> user_id u),
                cash_notes = []\<rparr>
    in (received = None \<or> (\<exists>x. received = Some x \<and> x < total_amount order) \<longrightarrow>
          w1 = w\<lparr>effects := effects w @ [reject]\<rparr>)
     \<and> (r < total_amount order \<longrightarrow> w2 = w\<lparr>effects := effects w @ [reject]\<rparr>)
     \<and> (\<forall>x. received = Some x \<and> total_amount order \<le> x
            \<and> db_error env
                 (UpdateOrder (oid order)
                    (no_patch\<lparr>set_payment_status := Some ''paid'',
                              set_status := Some ''confirmed''\<rparr>)) = None
            \<and> db_error env (InsertPayment payment) = None \<longrightarrow>
            payments w1 = payments w @ [payment]
            \<and> cash_payments w1 = cash_payments w
            \<and> orders w1 =
                map (\<lambda>row. if oid row = oid order
                            then row\<lparr>payment_status := ''paid'', status := ''confirmed''\<rparr>
                            else row) (orders w)
            \<and> changeAmount (Some order) received = Some (x - total_amount order))
     \<and> (total_amount order \<le> r
          \<and> db_error env (InsertCashPayment cash) = None
          \<and> db_error env
               (UpdateOrder (oid order)
                  (no_patch\<lparr>set_payment_status := Some ''paid'',
                            set_payment_method := Some ''cash''\<rparr>)) = None \<longrightarrow>
            cash_payments w2 = cash_payments w @ [cash]
            \<and> payments w2 = payments w
            \<and> map oid (orders w2) = map oid (orders w)
            \<and> (\<forall>row \<in> set (orders w2). oid row = oid order \<longrightarrow>
                  payment_status row = ''paid'' \<and> payment_method row = Some ''cash'')))"
proof -
  have paid: "payment_status row = ''paid'' \<and> payment_method row = Some ''cash''"
    if "row \<in> set (map (\<lambda>row. if oid row = oid order
                         then apply_patch (no_patch\<lparr>set_payment_status := Some ''paid'',
                                 set_payment_method := Some ''cash''\<rparr>) row
                         else row) (orders w))"
      and "oid row = oid order" for row
  proof -
    from that(1) obtain r0 where
      "row = (if oid r0 = oid order
              then apply_patch (no_patch\<lparr>set_payment_status := Some ''paid'',
                                 set_payment_method := Some ''cash''\<rparr>) r0
              else r0)"
      by (auto simp only: set_map)
    with that(2) show ?thesis
      by (cases "oid r0 = oid order") (simp_all add: apply_patch_def no_patch_def)
  qed
  show ?thesis
    unfolding Let_def
    apply (intro conjI impI allI)
    subgoal by (rule handlePayment_rejects) simp
    subgoal by (rule processPayment_rejects) simp
    subgoal for x using handlePayment_settles [of received x order env transactionId w] by simp
    subgoal for x using handlePayment_settles [of received x order env transactionId w] by simp
    subgoal for x using handlePayment_settles [of received x order env transactionId w] by simp
    subgoal for x by (simp add: changeAmount_def)
    subgoal using processPayment_settles [of order r env formatPrice st0 w] by simp
    subgoal using processPayment_settles [of order r env formatPrice st0 w] by simp
    subgoal using processPayment_settles [of order r env formatPrice st0 w] by (simp add: comp_def)
    subgoal
    proof -
      assume "total_amount order \<le> r \<and>
        db_error env
           (InsertCashPayment
              \<lparr>cash_order_id = oid order, cash_amount = total_amount order,
               received_amount = r, change_amount = r - total_amount order,
               cashier_id = (case auth_user env of None \<Rightarrow> [] | Some u \<Rightarrow> user_id u),
               cash_notes = []\<rparr>) = None \<and>
        db_error env
           (UpdateOrder (oid order)
              (no_patch\<lparr>set_payment_status := Some ''paid'',
                        set_payment_method := Some ''cash''\<rparr>)) = None"
      then have eq: "orders (snd (processPayment env formatPrice
             (setReceivedAmount r (handleViewDetail order st0)) w)) =
             map (\<lambda>row. if oid row = oid order
                         then apply_patch (no_patch\<lparr>set_payment_status := Some ''paid'',
                                 set_payment_method := Some ''cash''\<rparr>) row
                         else row) (orders w)"
        using processPayment_settles [of order r env formatPrice st0 w] by blast
      show ?thesis
        unfolding eq by (intro ballI impI) (rule paid)
    qed
    done
qed

theorem cash_settlement_witness:
  "handlePayment example_env ''CASH-1'' (Some order_E) (Some 45000) order_E_world =
     order_E_world\<lparr>effects :=
       [Toast ''Error'' ''Jumlah uang yang diterima kurang dari total pembayaran''
          Destructive]\<rparr>
   \<and> payments (handlePayment example_env ''CASH-1'' (Some order_E) (Some 100000)
        order_E_world) =
       [\<lparr>pay_order_id = ''E'', pay_amount = 50000, pay_method = ''cash'',
         pay_status = ''success'', pay_transaction_id = ''CASH-1''\<rparr>]
   \<and> map (\<lambda>row. (oid row, status row, payment_status row))
        (orders (handlePayment example_env ''CASH-1'' (Some order_E) (Some 100000)
           order_E_world)) = [(''E'', ''confirmed'', ''paid'')]
   \<and> changeAmount (Some order_E) (Some 100000) = Some 50000
   \<and> snd (processPayment example_env rupiah
            (setReceivedAmount 45000 (handleViewDetail order_E idle_cashier)) order_E_world) =
       order_E_world\<lparr>effects :=
         [Toast ''Error'' ''Jumlah uang yang diterima kurang dari total pembayaran''
            Destructive]\<rparr>
   \<and> cash_payments (snd (processPayment example_env rupiah
            (setReceivedAmount 100000 (handleViewDetail order_E idle_cashier)) order_E_world)) =
       [\<lparr>cash_order_id = ''E'', cash_amount = 50000, received_amount = 100000,
         change_amount = 50000, cashier_id = ''u1'', cash_notes = []\<rparr>]
   \<and> map (\<lambda>row. (oid row, payment_status row, payment_method row))
        (orders (snd (processPayment example_env rupiah
            (setReceivedAmount 100000 (handleViewDetail order_E idle_cashier)) order_E_world))) =
       [(''E'', ''paid'', Some ''cash'')]"
  using cash_settlement [of example_env "''CASH-1''" order_E "Some 45000" order_E_world rupiah
      45000 idle_cashier]
    cash_settlement [of example_env "''CASH-1''" order_E "Some 100000" order_E_world rupiah
      100000 idle_cashier]
  by (simp add: cash_defs run_defs fixture_defs order_E_def order_E_world_def idle_cashier_def)

text \<open>
  The claim as stated has every confirmation record the change and set the order's
  \<^verbatim>\<open>status\<close> to "confirmed". For 100000 received against 50000,
  \<^verbatim>\<open>handlePayment\<close> stores a payment of 50000 and no change anywhere, and
  \<^verbatim>\<open>processPayment\<close> leaves the order's \<^verbatim>\<open>status\<close> at "pending".
\<close>

theorem cash_records_counterexample:
  "payments (handlePayment example_env ''CASH-1'' (Some order_E) (Some 100000) order_E_world) =
     [\<lparr>pay_order_id = ''E'', pay_amount = 50000, pay_method = ''cash'',
       pay_status = ''success'', pay_transaction_id = ''CASH-1''\<rparr>]
   \<and> cash_payments (handlePayment example_env ''CASH-1'' (Some order_E) (Some 100000)
        order_E_world) = []
   \<and> map (\<lambda>row. (oid row, status row, payment_status row))
        (orders (snd (processPayment example_env rupiah
            (setReceivedAmount 100000 (handleViewDetail order_E idle_cashier)) order_E_world))) =
       [(''E'', ''pending'', ''paid'')]"
  by (simp add: cash_defs run_defs fixture_defs order_E_def order_E_world_def idle_cashier_def)

end
